theory Spec2Isabelle
  imports Main "HOL-Library.Word"
begin

section \<open>Output text\<close>

text \<open>
  The program writes to two streams, \<open>cout\<close> and \<open>cerr\<close>. Each stream is modelled as
  the list of the chunks written to it, in order; one chunk is the text of one output
  statement (or of one run of \<open><<\<close> insertions ending in \<open>endl\<close>), so that
  \<open>concat\<close> of the list is the byte stream.
\<close>

definition nl :: string where
  "nl = [CHR 0x0A]"

definition tab :: string where
  "tab = [CHR 0x09]"

definition apos :: string where
  "apos = [CHR 0x27]"

text \<open>Decimal output of \<open>operator<<\<close> for integers.\<close>

definition digit_char :: "nat \<Rightarrow> char" where
  "digit_char d = ''0123456789'' ! d"

fun string_of_nat :: "nat \<Rightarrow> string" where
  "string_of_nat n =
     (if n < 10 then [digit_char n]
      else string_of_nat (n div 10) @ [digit_char (n mod 10)])"

declare string_of_nat.simps [simp del]

definition string_of_int :: "int \<Rightarrow> string" where
  "string_of_int i = (if i < 0 then ''-'' @ string_of_nat (nat (- i)) else string_of_nat (nat i))"

section \<open>The C library's number parsing\<close>

text \<open>
  \<open>strtoll(s, NULL, 10)\<close>: leading white space is skipped, an optional sign is read, then
  the longest run of decimal digits; no digits give 0, and a value outside the range of
  \<open>long long\<close> is clamped to it. \<open>long\<close> has 64 bits as well (LP64), so \<open>strtol\<close> is the
  same function; \<open>atoi\<close> is \<open>strtol\<close> converted to \<open>int\<close>.
\<close>

definition isspace :: "char \<Rightarrow> bool" where
  "isspace c = (c \<in> {CHR 0x20, CHR 0x09, CHR 0x0A, CHR 0x0B, CHR 0x0C, CHR 0x0D})"

definition isdigit :: "char \<Rightarrow> bool" where
  "isdigit c = (48 \<le> (of_char c :: nat) \<and> (of_char c :: nat) \<le> 57)"

fun digits_value :: "int \<Rightarrow> string \<Rightarrow> int" where
  "digits_value acc [] = acc"
| "digits_value acc (c # cs) =
     (if isdigit c then digits_value (10 * acc + (int (of_char c) - 48)) cs else acc)"

definition LLONG_MAX :: int where
  "LLONG_MAX = 2 ^ 63 - 1"

definition LLONG_MIN :: int where
  "LLONG_MIN = - (2 ^ 63)"

definition strtoll :: "string \<Rightarrow> int" where
  "strtoll s =
     (let s1 = dropWhile isspace s;
          v = (case s1 of
                 [] \<Rightarrow> 0
               | c # r \<Rightarrow>
                   if c = CHR ''-'' then - digits_value 0 r
                   else if c = CHR ''+'' then digits_value 0 r
                   else digits_value 0 s1)
      in max LLONG_MIN (min LLONG_MAX v))"

definition strtol :: "string \<Rightarrow> int" where
  "strtol s = strtoll s"

section \<open>Configuration\<close>

text \<open>
  The file-level statics of \<open>yoruba_inu.cpp\<close>. The reads loop uses \<open>opt_reads\<close> and
  \<open>opt_progress\<close> outside any conditional compilation, so the program is the one built
  with \<open>_WITH_DEBUG\<close>, and the three debug options are part of the configuration.
  \<open>int64_t\<close> is \<open>64 word\<close> and \<open>int32_t\<close> is \<open>32 word\<close>, read with \<open>sint\<close>.
\<close>

record options =
  input_file :: string
  opt_reads_to_report :: "64 word"
  opt_quit :: bool
  opt_quiet :: bool
  opt_raw :: bool
  opt_refs_to_report :: "32 word"
  opt_raw_to_report :: "32 word"
  opt_debug :: "32 word"
  opt_reads :: "64 word"
  opt_progress :: "64 word"

definition initial_options :: options where
  "initial_options =
     \<lparr> input_file = [],
       opt_reads_to_report = 10,
       opt_quit = False,
       opt_quiet = False,
       opt_raw = False,
       opt_refs_to_report = 10,
       opt_raw_to_report = 1000,
       opt_debug = 0,
       opt_reads = - 1,
       opt_progress = 0 \<rparr>"

section \<open>The collaborators\<close>

text \<open>
  The BamTools reader, the option parser and the two printing helpers of the yoruba
  utilities are not part of \<open>yoruba_inu.cpp\<close>. The model takes what they return as data.

  The macros \<open>NAME\<close> and \<open>YORUBA_NAME\<close> and the helpers \<open>printAlignmentInfo\<close> and
  \<open>printReadGroupDictionary\<close> are parameters, collected in one record. An alignment
  record and a read group dictionary are opaque (\<open>'al\<close> and \<open>'rg\<close>).
\<close>

record RefData =
  RefName :: string
  RefLength :: int

record SamProgram =
  ID :: string
  Name :: string
  CommandLine :: string
  PreviousProgramID :: string
  ProgramVersion :: string

record ('rg, 'al) externals =
  NAME :: string
  YORUBA_NAME :: string
  printAlignmentInfo :: "'al \<Rightarrow> RefData list \<Rightarrow> int \<Rightarrow> string"
  printReadGroupDictionary :: "'rg \<Rightarrow> string \<Rightarrow> string"

text \<open>
  A header as the program observes it: the result of each accessor it calls. The
  \<open>Has...\<close> tests are kept apart from the fields they guard.
\<close>

record 'rg SamHeader =
  IsValid :: bool
  GetErrorString :: string
  ToString :: string
  HasVersion :: bool
  Version :: string
  HasSortOrder :: bool
  SortOrder :: string
  HasGroupOrder :: bool
  GroupOrder :: string
  HasSequences :: bool
  HasReadGroups :: bool
  ReadGroups :: 'rg
  HasPrograms :: bool
  Programs :: "SamProgram list"
  Comments :: "string list"

text \<open>
  An opened reader. \<open>Alignments\<close> are the records for which \<open>GetNextAlignmentCore\<close>
  returns true, in order; after them it returns false, and \<open>StreamEnd\<close> says why: the end
  of the file, or a read that failed. The function's boolean result does not tell the
  two apart.
\<close>

datatype stream_end = EndOfFile | ReadError

record ('rg, 'al) BamReader =
  GetHeader :: "'rg SamHeader"
  GetReferenceData :: "RefData list"
  Alignments :: "'al list"
  StreamEnd :: stream_end

text \<open>\<open>GetReferenceCount\<close> is the size of the reference vector.\<close>

definition GetReferenceCount :: "('rg, 'al) BamReader \<Rightarrow> int" where
  "GetReferenceCount rd = int (length (GetReferenceData rd))"

text \<open>
  \<open>CSimpleOpt\<close>, seen through the calls the program makes. Each successful \<open>Next()\<close> is
  one event. The option table fixes which identifiers carry an argument
  (\<open>SO_REQ_SEP\<close>) and which do not (\<open>SO_NONE\<close>); an event whose \<open>LastError()\<close> is not
  \<open>SO_SUCCESS\<close> is \<open>Invalid\<close>, and \<open>Unlisted\<close> is an identifier that none of the
  comparisons of the loop matches. Each event carries its \<open>OptionText()\<close>. \<open>files\<close> are
  the positional arguments (\<open>FileCount()\<close>, \<open>File(i)\<close>).
\<close>

datatype flag_id = OPT_quit | OPT_quiet | OPT_raw | OPT_help

datatype valued_id =
  OPT_reads_to_report | OPT_refs_to_report | OPT_raw_to_report
  | OPT_debug | OPT_reads | OPT_progress

datatype opt_event =
  Invalid string
  | Flag flag_id string
  | Valued valued_id string string
  | Unlisted string

record CSimpleOpt =
  events :: "opt_event list"
  files :: "string list"

section \<open>The result of a run\<close>

record result =
  exit_code :: int
  cout :: "string list"
  cerr :: "string list"
  opened :: "string option"
  closed :: bool

section \<open>usage\<close>

definition usage :: "('rg, 'al) externals \<Rightarrow> options \<Rightarrow> string list" where
  "usage x cfg =
     [ nl,
       ''Usage:   '' @ YORUBA_NAME x @ '' contents [options] <in.bam>'' @ nl,
       ''         '' @ YORUBA_NAME x @ '' inu [options] <in.bam>'' @ nl,
       nl,
       ''Either command invokes this function.'' @ nl,
       nl,
       ''Summarizes the contents of the BAM file <in.bam>.'' @ nl
         @ nl
         @ ''Output includes:'' @ nl
         @ ''   (1) header lines exclusive of the reference sequences (@SQ lines)'' @ nl
         @ ''   (2) a summary of reference sequences, if there are more than ''
         @ string_of_int (sint (opt_refs_to_report cfg)) @ '','' @ nl
         @ ''       otherwise all @SQ lines are printed'' @ nl
         @ ''   (3) a summary of read content'' @ nl
         @ nl,
       ''Options: --reads-to-report INT  print this many reads [''
         @ string_of_int (sint (opt_reads_to_report cfg)) @ '']'' @ nl
         @ ''         --refs-to-report INT   print this many references [''
         @ string_of_int (sint (opt_refs_to_report cfg)) @ '']'' @ nl
         @ ''         --quit                 quit early, don'' @ apos @ ''t count all reads'' @ nl
         @ ''         --quiet                don'' @ apos
         @ ''t print any details, only check validity; combine'' @ nl
         @ ''                                with --raw to only check the header and print raw lines'' @ nl
         @ ''         --raw                  print raw header contents'' @ nl
         @ ''         --raw-to-report INT    number of --raw header characters to print [''
         @ string_of_int (sint (opt_raw_to_report cfg)) @ '']'' @ nl
         @ ''         --? | -? | --help      longer help'' @ nl
         @ nl,
       ''         --debug INT     debug info level INT [''
         @ string_of_int (sint (opt_debug cfg)) @ '']'' @ nl
         @ ''         --reads INT     only process INT reads [''
         @ string_of_int (sint (opt_reads cfg)) @ '']'' @ nl
         @ ''         --progress INT  print reads processed mod INT [''
         @ string_of_int (sint (opt_progress cfg)) @ '']'' @ nl
         @ nl,
       ''Inu is the Yoruba (Nigeria) noun for '' @ apos @ ''inside'' @ apos @ ''.'' @ nl,
       nl ]"

text \<open>A run that ends before the input is opened: only \<open>cerr\<close> was written.\<close>

definition early_exit :: "string list \<Rightarrow> int \<Rightarrow> result" where
  "early_exit err code =
     \<lparr> exit_code = code, cout = [], cerr = err, opened = None, closed = False \<rparr>"

section \<open>Command-line options\<close>

text \<open>
  The body of \<open>while (args.Next())\<close>, one event at a time. \<open>Inl\<close> is a \<open>return\<close> from
  inside the loop, with what was written to \<open>cerr\<close> and the exit code (\<open>usage()\<close> returns
  1); \<open>Inr\<close> is the configuration after the event. A \<open>Valued\<close> event always has an
  argument, so the null tests of the \<open>--debug\<close> and \<open>--progress\<close> branches take their
  first arm.
\<close>

fun process_option ::
  "('rg, 'al) externals \<Rightarrow> options \<Rightarrow> opt_event \<Rightarrow> (string list \<times> int) + options" where
  "process_option x cfg (Invalid t) =
     Inl ([NAME x @ '' invalid argument '' @ apos @ t @ apos @ nl] @ usage x cfg, 1)"
| "process_option x cfg (Flag OPT_help t) = Inl (usage x cfg, 1)"
| "process_option x cfg (Valued OPT_reads_to_report t a) =
     Inr (cfg\<lparr>opt_reads_to_report := word_of_int (strtoll a)\<rparr>)"
| "process_option x cfg (Valued OPT_refs_to_report t a) =
     Inr (cfg\<lparr>opt_refs_to_report := word_of_int (strtol a)\<rparr>)"
| "process_option x cfg (Flag OPT_quit t) = Inr (cfg\<lparr>opt_quit := True\<rparr>)"
| "process_option x cfg (Flag OPT_quiet t) = Inr (cfg\<lparr>opt_quiet := True\<rparr>)"
| "process_option x cfg (Flag OPT_raw t) = Inr (cfg\<lparr>opt_raw := True\<rparr>)"
| "process_option x cfg (Valued OPT_raw_to_report t a) =
     Inr (cfg\<lparr>opt_raw_to_report := word_of_int (strtol a)\<rparr>)"
| "process_option x cfg (Valued OPT_debug t a) =
     Inr (cfg\<lparr>opt_debug := word_of_int (strtol a)\<rparr>)"
| "process_option x cfg (Valued OPT_reads t a) =
     Inr (cfg\<lparr>opt_reads := word_of_int (strtoll a)\<rparr>)"
| "process_option x cfg (Valued OPT_progress t a) =
     Inr (cfg\<lparr>opt_progress := word_of_int (strtoll a)\<rparr>)"
| "process_option x cfg (Unlisted t) =
     Inl ([NAME x @ '' unprocessed argument '' @ apos @ t @ apos @ nl], 1)"

fun options_loop ::
  "('rg, 'al) externals \<Rightarrow> options \<Rightarrow> opt_event list \<Rightarrow> (string list \<times> int) + options" where
  "options_loop x cfg [] = Inr cfg"
| "options_loop x cfg (e # es) =
     (case process_option x cfg e of
        Inl r \<Rightarrow> Inl r
      | Inr cfg' \<Rightarrow> options_loop x cfg' es)"

text \<open>
  Lines 108 to 175: the guard on \<open>argc\<close>, the options loop, and the choice of the input
  file. \<open>Inl\<close> is a run that ended here.
\<close>

definition configure ::
  "('rg, 'al) externals \<Rightarrow> int \<Rightarrow> CSimpleOpt \<Rightarrow> result + options" where
  "configure x argc args =
     (if argc < 2 then Inl (early_exit (usage x initial_options) 1)
      else
        case options_loop x initial_options (events args) of
          Inl (err, code) \<Rightarrow> Inl (early_exit err code)
        | Inr cfg \<Rightarrow>
            (case files args of
               [] \<Rightarrow>
                 if input_file cfg = [] then Inr (cfg\<lparr>input_file := ''/dev/stdin''\<rparr>)
                 else Inr cfg
             | [f] \<Rightarrow> Inr (cfg\<lparr>input_file := f\<rparr>)
             | f # g # fs \<Rightarrow>
                 Inl (early_exit
                       ([NAME x @ '' requires at most one BAM file specified as input'' @ nl]
                          @ usage x cfg) 1)))"

section \<open>The report\<close>

text \<open>Lines 188 to 192: the validity check of the header.\<close>

definition validity_section :: "('rg, 'al) externals \<Rightarrow> 'rg SamHeader \<Rightarrow> string list" where
  "validity_section x header =
     (if \<not> IsValid header
      then [NAME x @ '' header not well-formed, errors are:'' @ nl, GetErrorString header @ nl]
      else [])"

text \<open>
  Lines 194 to 205: the raw header. The length is compared with \<open>uint32_t(opt_raw_to_report)\<close>,
  the unsigned reading of the 32 bits; \<open>substr\<close> takes a \<open>size_t\<close>, the sign-extended value
  read as an unsigned 64-bit number, and returns at most that many characters.
\<close>

definition raw_section ::
  "('rg, 'al) externals \<Rightarrow> options \<Rightarrow> 'rg SamHeader \<Rightarrow> string list" where
  "raw_section x cfg header =
     (if opt_raw cfg then
        (let header_printable = ToString header in
         if length header_printable > unat (opt_raw_to_report cfg)
         then [NAME x @ '' header string, first ''
                 @ string_of_int (sint (opt_raw_to_report cfg)) @ '' characters:'' @ nl,
               take (unat (scast (opt_raw_to_report cfg) :: 64 word)) header_printable,
               nl]
         else [NAME x @ '' header string, complete contents:'' @ nl, header_printable])
      else [])"

text \<open>Lines 214 to 220: the header line.\<close>

definition headerline_section :: "('rg, 'al) externals \<Rightarrow> 'rg SamHeader \<Rightarrow> string list" where
  "headerline_section x header =
     (if HasVersion header \<or> HasSortOrder header \<or> HasGroupOrder header
      then [NAME x @ ''[headerline]''
              @ (if HasVersion header then '' VN:'' @ apos @ Version header @ apos else [])
              @ (if HasSortOrder header then '' SO:'' @ apos @ SortOrder header @ apos else [])
              @ (if HasGroupOrder header then '' GO:'' @ apos @ GroupOrder header @ apos else [])
              @ nl]
      else [NAME x @ ''[headerline] no header line found'' @ nl])"

text \<open>
  Lines 224 to 239: the reference sequences. \<open>ref_loop\<close> is the \<open>for\<close> loop, at index \<open>i\<close>
  with the references from \<open>i\<close> on still to visit: the list is empty exactly when
  \<open>i < ref_count\<close> fails.
\<close>

definition ref_line :: "('rg, 'al) externals \<Rightarrow> int \<Rightarrow> RefData \<Rightarrow> string" where
  "ref_line x i r =
     NAME x @ ''[ref] @SQ ID:'' @ string_of_int i
       @ tab @ ''NM:'' @ RefName r
       @ tab @ ''LN:'' @ string_of_int (RefLength r)
       @ nl"

fun ref_loop :: "('rg, 'al) externals \<Rightarrow> options \<Rightarrow> int \<Rightarrow> RefData list \<Rightarrow> string list" where
  "ref_loop x cfg i [] = []"
| "ref_loop x cfg i (r # rs) =
     (if i < sint (opt_refs_to_report cfg)
      then ref_line x i r # ref_loop x cfg (i + 1) rs
      else [])"

definition ref_section ::
  "('rg, 'al) externals \<Rightarrow> options \<Rightarrow> ('rg, 'al) BamReader \<Rightarrow> string list" where
  "ref_section x cfg rd =
     (if HasSequences (GetHeader rd) then
        (let ref_count = GetReferenceCount rd in
         (if ref_count > sint (opt_refs_to_report cfg)
          then [NAME x @ ''[ref] displaying the first ''
                  @ string_of_int (sint (opt_refs_to_report cfg))
                  @ '' reference sequences'' @ nl]
          else [])
         @ ref_loop x cfg 0 (GetReferenceData rd))
      else [NAME x @ ''[ref] no reference sequences found'' @ nl])"

text \<open>Lines 243 to 246: the read groups.\<close>

definition readgroup_section :: "('rg, 'al) externals \<Rightarrow> 'rg SamHeader \<Rightarrow> string list" where
  "readgroup_section x header =
     (if HasReadGroups header
      then [printReadGroupDictionary x (ReadGroups header) (NAME x @ ''[readgroup] '')]
      else [NAME x @ ''[readgroup] no read group dictionary found'' @ nl])"

text \<open>Lines 250 to 261: the programs.\<close>

definition program_line :: "('rg, 'al) externals \<Rightarrow> SamProgram \<Rightarrow> string" where
  "program_line x p =
     NAME x @ ''[program] @PG''
       @ '' ID:'' @ apos @ ID p @ apos
       @ '' PN:'' @ apos @ Name p @ apos
       @ '' CL:'' @ apos @ CommandLine p @ apos
       @ '' PP:'' @ apos @ PreviousProgramID p @ apos
       @ '' VN:'' @ apos @ ProgramVersion p @ apos
       @ nl"

fun program_loop :: "('rg, 'al) externals \<Rightarrow> SamProgram list \<Rightarrow> string list" where
  "program_loop x [] = []"
| "program_loop x (p # ps) = program_line x p # program_loop x ps"

definition program_section :: "('rg, 'al) externals \<Rightarrow> 'rg SamHeader \<Rightarrow> string list" where
  "program_section x header =
     (if HasPrograms header then program_loop x (Programs header)
      else [NAME x @ ''[program] no program information found'' @ nl])"

text \<open>Lines 266 to 271: the comments.\<close>

fun comment_loop :: "('rg, 'al) externals \<Rightarrow> string list \<Rightarrow> string list" where
  "comment_loop x [] = []"
| "comment_loop x (c # cs) =
     (NAME x @ ''[program] @CO '' @ apos @ c @ apos @ nl) # comment_loop x cs"

definition comment_section :: "('rg, 'al) externals \<Rightarrow> 'rg SamHeader \<Rightarrow> string list" where
  "comment_section x header =
     (if Comments header \<noteq> [] then comment_loop x (Comments header)
      else [NAME x @ ''[comment] no comment lines found'' @ nl])"

text \<open>
  Lines 275 to 300: the reads. The remainder of C++ truncates towards zero.
\<close>

definition c_rem :: "int \<Rightarrow> int \<Rightarrow> int" where
  "c_rem a b = a - b * (sgn a * sgn b * (\<bar>a\<bar> div \<bar>b\<bar>))"

definition read_line :: "('rg, 'al) externals \<Rightarrow> RefData list \<Rightarrow> 'al \<Rightarrow> string" where
  "read_line x refs al = NAME x @ ''[read] '' @ printAlignmentInfo x al refs 99"

definition progress_line :: "('rg, 'al) externals \<Rightarrow> int \<Rightarrow> string" where
  "progress_line x n = NAME x @ ''[read] '' @ string_of_int n @ '' reads processed...'' @ nl"

text \<open>
  The state of the \<open>while\<close> loop when it is left: what it wrote to \<open>cout\<close> and to \<open>cerr\<close>,
  \<open>n_reads\<close>, and the records the reader has not delivered.
\<close>

record 'al loop_exit =
  detail :: "string list"
  progress :: "string list"
  n_reads :: int
  unread :: "'al list"

text \<open>
  \<open>read_loop x cfg refs n als\<close> is the loop entered with \<open>n_reads = n\<close> and the records
  \<open>als\<close> still in the reader. With no record left \<open>GetNextAlignmentCore\<close> returns false.
  Otherwise it delivers the next record, and only then is \<open>opt_reads\<close> tested. \<open>n_reads\<close>
  is a mathematical integer: the counter of a stream shorter than \<open>2 ^ 63\<close> does not
  overflow.
\<close>

fun read_loop ::
  "('rg, 'al) externals \<Rightarrow> options \<Rightarrow> RefData list \<Rightarrow> int \<Rightarrow> 'al list \<Rightarrow> 'al loop_exit" where
  "read_loop x cfg refs n [] =
     \<lparr> detail = [], progress = [], n_reads = n, unread = [] \<rparr>"
| "read_loop x cfg refs n (al # rest) =
     (if \<not> (sint (opt_reads cfg) < 0 \<or> n < sint (opt_reads cfg))
      then \<lparr> detail = [], progress = [], n_reads = n, unread = rest \<rparr>
      else
        (let n' = n + 1;
             out = (if n' \<le> sint (opt_reads_to_report cfg) then [read_line x refs al] else []);
             err = (if sint (opt_progress cfg) \<noteq> 0 \<and> c_rem n' (sint (opt_progress cfg)) = 0
                    then [progress_line x n'] else [])
         in if opt_quit cfg \<and> n' = sint (opt_reads_to_report cfg)
            then \<lparr> detail = out, progress = err, n_reads = n', unread = rest \<rparr>
            else
              (let later = read_loop x cfg refs n' rest
               in later\<lparr> detail := out @ detail later, progress := err @ progress later \<rparr>)))"

definition announce_section :: "('rg, 'al) externals \<Rightarrow> options \<Rightarrow> string list" where
  "announce_section x cfg =
     (if opt_reads_to_report cfg \<noteq> 0
      then [NAME x @ ''[read] printing the first ''
              @ string_of_int (sint (opt_reads_to_report cfg)) @ '' reads'' @ nl]
      else [])"

definition tally_line :: "('rg, 'al) externals \<Rightarrow> int \<Rightarrow> string" where
  "tally_line x n =
     NAME x @ ''[read] '' @ string_of_int n @ '' reads examined from the BAM file'' @ nl"

text \<open>
  Lines 186 to 304, for a reader that has been opened. \<open>refs\<close> is filled only when the
  header has sequences.
\<close>

definition report ::
  "('rg, 'al) externals \<Rightarrow> options \<Rightarrow> ('rg, 'al) BamReader \<Rightarrow> result" where
  "report x cfg rd =
     (let header = GetHeader rd;
          checked = validity_section x header @ raw_section x cfg header
      in if opt_quiet cfg
         then \<lparr> exit_code = 0, cout = checked, cerr = [],
                opened = Some (input_file cfg), closed = True \<rparr>
         else
           (let refs = (if HasSequences header then GetReferenceData rd else []);
                loop = read_loop x cfg refs 0 (Alignments rd)
            in \<lparr> exit_code = 0,
                 cout = checked
                   @ headerline_section x header
                   @ ref_section x cfg rd
                   @ readgroup_section x header
                   @ program_section x header
                   @ comment_section x header
                   @ announce_section x cfg
                   @ detail loop
                   @ [tally_line x (n_reads loop)],
                 cerr = progress loop,
                 opened = Some (input_file cfg),
                 closed = True \<rparr>))"

section \<open>main_inu\<close>

text \<open>
  \<open>fs\<close> is what \<open>reader.Open\<close> finds at a path: no reader when it returns false.
\<close>

definition main_inu ::
  "('rg, 'al) externals \<Rightarrow> int \<Rightarrow> CSimpleOpt \<Rightarrow> (string \<Rightarrow> ('rg, 'al) BamReader option) \<Rightarrow> result" where
  "main_inu x argc args fs =
     (case configure x argc args of
        Inl r \<Rightarrow> r
      | Inr cfg \<Rightarrow>
          (case fs (input_file cfg) of
             None \<Rightarrow> early_exit [NAME x @ ''could not open BAM input'' @ nl] 1
           | Some rd \<Rightarrow> report x cfg rd))"

section \<open>The header line as the specification words it\<close>

text \<open>
  The fields of the header line that are present, in the order version, sort order,
  group order, each with its key; and the row that holds exactly these fields.
\<close>

definition present_fields :: "'rg SamHeader \<Rightarrow> (string \<times> string) list" where
  "present_fields header =
     map (\<lambda>(key, present, text). (key, text))
       (filter (\<lambda>(key, present, text). present)
          [(''VN'', HasVersion header, Version header),
           (''SO'', HasSortOrder header, SortOrder header),
           (''GO'', HasGroupOrder header, GroupOrder header)])"

definition headerline_row :: "('rg, 'al) externals \<Rightarrow> (string \<times> string) list \<Rightarrow> string" where
  "headerline_row x kvs =
     NAME x @ ''[headerline]''
       @ concat (map (\<lambda>(key, text). '' '' @ key @ '':'' @ apos @ text @ apos) kvs)
       @ nl"

section \<open>Sample inputs\<close>

text \<open>
  A small file with one header line, three reference sequences, one comment and three
  records, and the invocations used to run the definitions on it.
\<close>

definition sample_externals :: "(string, string) externals" where
  "sample_externals =
     \<lparr> NAME = ''inu'',
       YORUBA_NAME = ''yoruba'',
       printAlignmentInfo = (\<lambda>al refs n. al @ nl),
       printReadGroupDictionary = (\<lambda>rg prefix. prefix @ rg @ nl) \<rparr>"

definition sample_header :: "string SamHeader" where
  "sample_header =
     \<lparr> IsValid = True,
       GetErrorString = [],
       ToString = ''@HD VN:1.0'',
       HasVersion = True,
       Version = ''1.0'',
       HasSortOrder = False,
       SortOrder = [],
       HasGroupOrder = False,
       GroupOrder = [],
       HasSequences = True,
       HasReadGroups = False,
       ReadGroups = [],
       HasPrograms = False,
       Programs = [],
       Comments = [''by hand''] \<rparr>"

definition sample_reader :: "(string, string) BamReader" where
  "sample_reader =
     \<lparr> GetHeader = sample_header,
       GetReferenceData =
         [\<lparr> RefName = ''chr1'', RefLength = 1000 \<rparr>,
          \<lparr> RefName = ''chr2'', RefLength = 500 \<rparr>,
          \<lparr> RefName = ''chr3'', RefLength = 250 \<rparr>],
       Alignments = [''r1'', ''r2'', ''r3''],
       StreamEnd = EndOfFile \<rparr>"

definition sample_fs :: "string \<Rightarrow> (string, string) BamReader option" where
  "sample_fs path = (if path = ''in.bam'' then Some sample_reader else None)"

text \<open>The same file, with a read that fails after the second record.\<close>

definition failing_reader :: "(string, string) BamReader" where
  "failing_reader = sample_reader \<lparr> Alignments := [''r1'', ''r2''], StreamEnd := ReadError \<rparr>"

definition failing_fs :: "string \<Rightarrow> (string, string) BamReader option" where
  "failing_fs path = (if path = ''in.bam'' then Some failing_reader else None)"

text \<open>The same file, with a header that fails the validity check.\<close>

definition invalid_reader :: "(string, string) BamReader" where
  "invalid_reader =
     sample_reader \<lparr> GetHeader := sample_header \<lparr> IsValid := False, GetErrorString := ''bad @HD'' \<rparr> \<rparr>"

definition invalid_fs :: "string \<Rightarrow> (string, string) BamReader option" where
  "invalid_fs path = (if path = ''in.bam'' then Some invalid_reader else None)"

text \<open>\<open>inu in.bam\<close>, \<open>inu --quiet in.bam\<close>, \<open>inu --quiet\<close>, \<open>inu\<close> and \<open>inu a.bam b.bam\<close>.\<close>

definition plain_args :: CSimpleOpt where
  "plain_args = \<lparr> events = [], files = [''in.bam''] \<rparr>"

definition quiet_args :: CSimpleOpt where
  "quiet_args = \<lparr> events = [Flag OPT_quiet ''--quiet''], files = [''in.bam''] \<rparr>"

definition quiet_stdin_args :: CSimpleOpt where
  "quiet_stdin_args = \<lparr> events = [Flag OPT_quiet ''--quiet''], files = [] \<rparr>"

definition no_args :: CSimpleOpt where
  "no_args = \<lparr> events = [], files = [] \<rparr>"

definition two_file_args :: CSimpleOpt where
  "two_file_args = \<lparr> events = [], files = [''a.bam'', ''b.bam''] \<rparr>"

text \<open>The same file on standard input.\<close>

definition stdin_fs :: "string \<Rightarrow> (string, string) BamReader option" where
  "stdin_fs path = (if path = ''/dev/stdin'' then Some sample_reader else None)"

definition bad_option_args :: CSimpleOpt where
  "bad_option_args = \<lparr> events = [Invalid ''--bogus''], files = [''in.bam''] \<rparr>"

definition missing_file_args :: CSimpleOpt where
  "missing_file_args = \<lparr> events = [], files = [''none.bam''] \<rparr>"

text \<open>
  \<open>inu --reads 1 in.bam\<close>, \<open>inu --refs-to-report -1 in.bam\<close>,
  \<open>inu --raw --raw-to-report -1 in.bam\<close> and \<open>inu --raw --raw-to-report 4 in.bam\<close>.
\<close>

definition capped_args :: CSimpleOpt where
  "capped_args = \<lparr> events = [Valued OPT_reads ''--reads'' ''1''], files = [''in.bam''] \<rparr>"

definition negative_refs_args :: CSimpleOpt where
  "negative_refs_args =
     \<lparr> events = [Valued OPT_refs_to_report ''--refs-to-report'' ''-1''], files = [''in.bam''] \<rparr>"

definition negative_raw_args :: CSimpleOpt where
  "negative_raw_args =
     \<lparr> events = [Flag OPT_raw ''--raw'', Valued OPT_raw_to_report ''--raw-to-report'' ''-1''],
       files = [''in.bam''] \<rparr>"

definition negative_reads_args :: CSimpleOpt where
  "negative_reads_args =
     \<lparr> events = [Valued OPT_reads_to_report ''--reads-to-report'' ''-1''], files = [''in.bam''] \<rparr>"

definition quit_zero_args :: CSimpleOpt where
  "quit_zero_args =
     \<lparr> events = [Flag OPT_quit ''--quit'', Valued OPT_reads_to_report ''--reads-to-report'' ''0''],
       files = [''in.bam''] \<rparr>"

definition quit_two_args :: CSimpleOpt where
  "quit_two_args =
     \<lparr> events = [Flag OPT_quit ''--quit'', Valued OPT_reads_to_report ''--reads-to-report'' ''2''],
       files = [''in.bam''] \<rparr>"

definition short_raw_args :: CSimpleOpt where
  "short_raw_args =
     \<lparr> events = [Flag OPT_raw ''--raw'', Valued OPT_raw_to_report ''--raw-to-report'' ''4''],
       files = [''in.bam''] \<rparr>"

text \<open>
  A file whose header has no header line, no reference sequences and no comment, with
  the same three records.
\<close>

definition bare_reader :: "(string, string) BamReader" where
  "bare_reader =
     sample_reader
       \<lparr> GetHeader := sample_header \<lparr> HasVersion := False, HasSequences := False, Comments := [] \<rparr> \<rparr>"

definition bare_fs :: "string \<Rightarrow> (string, string) BamReader option" where
  "bare_fs path = (if path = ''in.bam'' then Some bare_reader else None)"

text \<open>\<open>inu --refs-to-report 2 in.bam\<close> and \<open>inu --raw in.bam\<close>.\<close>

definition two_refs_args :: CSimpleOpt where
  "two_refs_args =
     \<lparr> events = [Valued OPT_refs_to_report ''--refs-to-report'' ''2''], files = [''in.bam''] \<rparr>"

definition raw_args :: CSimpleOpt where
  "raw_args = \<lparr> events = [Flag OPT_raw ''--raw''], files = [''in.bam''] \<rparr>"

section \<open>Running the definitions\<close>

lemmas text_defs = nl_def tab_def apos_def string_of_int_def string_of_nat.simps digit_char_def

lemmas strtol_defs = strtol_def strtoll_def isspace_def isdigit_def LLONG_MAX_def LLONG_MIN_def

lemmas sample_defs =
  sample_externals_def sample_header_def sample_reader_def sample_fs_def
  failing_reader_def failing_fs_def invalid_reader_def invalid_fs_def stdin_fs_def
  plain_args_def quiet_args_def quiet_stdin_args_def no_args_def two_file_args_def
  bad_option_args_def missing_file_args_def capped_args_def negative_refs_args_def
  negative_raw_args_def negative_reads_args_def quit_zero_args_def quit_two_args_def
  short_raw_args_def bare_reader_def bare_fs_def two_refs_args_def raw_args_def

lemmas section_defs =
  validity_section_def raw_section_def headerline_section_def ref_section_def ref_line_def
  GetReferenceCount_def readgroup_section_def program_section_def program_line_def
  comment_section_def announce_section_def read_line_def progress_line_def tally_line_def
  c_rem_def

lemmas run_defs =
  main_inu_def configure_def report_def early_exit_def initial_options_def Let_def
  sample_defs section_defs text_defs strtol_defs

section \<open>Exit codes of the option loop and of the report\<close>

lemma process_option_exit:
  "process_option x cfg e = Inl (err, code) \<Longrightarrow> code = 1"
  by (induction x cfg e rule: process_option.induct) auto

lemma options_loop_exit:
  "options_loop x cfg es = Inl (err, code) \<Longrightarrow> code = 1"
  by (induction es arbitrary: cfg) (auto split: sum.splits dest: process_option_exit)

lemma configure_exit:
  "configure x argc args = Inl r \<Longrightarrow> exit_code r = 1"
  by (auto simp: configure_def early_exit_def split: if_splits sum.splits list.splits
           dest: options_loop_exit)

lemma report_exit:
  "exit_code (report x cfg rd) = 0"
  by (simp add: report_def Let_def)

lemma report_closed:
  "closed (report x cfg rd)"
  by (simp add: report_def Let_def)

lemma report_opened:
  "opened (report x cfg rd) = Some (input_file cfg)"
  by (simp add: report_def Let_def)

lemma main_inu_report:
  "configure x argc args = Inr cfg \<Longrightarrow> fs (input_file cfg) = Some rd \<Longrightarrow>
   main_inu x argc args fs = report x cfg rd"
  by (simp add: main_inu_def)

lemma main_inu_cout:
  assumes "configure x argc args = Inr cfg"
    and "fs (input_file cfg) = Some rd"
  shows "cout (main_inu x argc args fs) =
     validity_section x (GetHeader rd) @ raw_section x cfg (GetHeader rd)
       @ (if opt_quiet cfg then []
          else headerline_section x (GetHeader rd) @ ref_section x cfg rd
            @ readgroup_section x (GetHeader rd) @ program_section x (GetHeader rd)
            @ comment_section x (GetHeader rd) @ announce_section x cfg
            @ detail (read_loop x cfg
                 (if HasSequences (GetHeader rd) then GetReferenceData rd else [])
                 0 (Alignments rd))
            @ [tally_line x
                 (n_reads (read_loop x cfg
                    (if HasSequences (GetHeader rd) then GetReferenceData rd else [])
                    0 (Alignments rd)))])"
  using assms by (simp add: main_inu_def report_def Let_def)

lemma process_option_input_file:
  "process_option x cfg e = Inr cfg' \<Longrightarrow> input_file cfg' = input_file cfg"
  by (induction x cfg e rule: process_option.induct) auto

lemma options_loop_input_file:
  "options_loop x cfg es = Inr cfg' \<Longrightarrow> input_file cfg' = input_file cfg"
  by (induction es arbitrary: cfg) (auto split: sum.splits dest: process_option_input_file)

lemma options_loop_invalid:
  "Invalid t \<in> set es \<Longrightarrow> \<exists>r. options_loop x cfg es = Inl r"
  by (induction es arbitrary: cfg) (auto split: sum.splits)

lemma configure_two_files:
  "1 < length (files args) \<Longrightarrow> \<exists>r. configure x argc args = Inl r"
  by (cases "files args"; cases "tl (files args)")
     (auto simp: configure_def split: sum.splits list.splits)

lemma configure_invalid:
  "Invalid t \<in> set (events args) \<Longrightarrow> \<exists>r. configure x argc args = Inl r"
  using options_loop_invalid [of t "events args" x initial_options]
  by (auto simp: configure_def split: sum.splits list.splits)

section \<open>Comments\<close>

lemma comment_loop_map:
  "comment_loop x cs = map (\<lambda>c. NAME x @ ''[program] @CO '' @ apos @ c @ apos @ nl) cs"
  by (induction cs) simp_all

text \<open>
  C10. In a run that opens its input and is not quiet, \<open>cout\<close> holds, between the
  program section and the announcement of the reads, one line for each comment of the
  header, in order, each under the tag \<open>[program]\<close> as an \<open>@CO\<close> line with the comment
  between apostrophes. The tag \<open>[comment]\<close> appears there only in the notice that there
  are no comment lines, which is printed when the header has none.
\<close>

theorem run_prints_comments_under_program_tag:
  assumes "configure x argc args = Inr cfg"
    and "fs (input_file cfg) = Some rd"
    and "\<not> opt_quiet cfg"
  shows
    "let header = GetHeader rd;
         refs = (if HasSequences header then GetReferenceData rd else []);
         loop = read_loop x cfg refs 0 (Alignments rd)
     in cout (main_inu x argc args fs) =
          (validity_section x header @ raw_section x cfg header
             @ headerline_section x header @ ref_section x cfg rd
             @ readgroup_section x header @ program_section x header)
          @ (if Comments header = []
             then [NAME x @ ''[comment] no comment lines found'' @ nl]
             else map (\<lambda>c. NAME x @ ''[program] @CO '' @ apos @ c @ apos @ nl)
                    (Comments header))
          @ (announce_section x cfg @ detail loop @ [tally_line x (n_reads loop)])"
  using main_inu_cout [where fs = fs and rd = rd, OF assms(1) assms(2)] assms(3)
  by (simp add: Let_def comment_section_def comment_loop_map)

theorem run_prints_comments_under_program_tag_witness:
  "configure sample_externals 2 plain_args = Inr (initial_options \<lparr> input_file := ''in.bam'' \<rparr>)
   \<and> \<not> opt_quiet (initial_options \<lparr> input_file := ''in.bam'' \<rparr>)
   \<and> sample_fs ''in.bam'' = Some sample_reader
   \<and> cout (main_inu sample_externals 2 plain_args sample_fs) =
       [''inu[headerline] VN:'' @ apos @ ''1.0'' @ apos @ nl,
        ''inu[ref] @SQ ID:0'' @ tab @ ''NM:chr1'' @ tab @ ''LN:1000'' @ nl,
        ''inu[ref] @SQ ID:1'' @ tab @ ''NM:chr2'' @ tab @ ''LN:500'' @ nl,
        ''inu[ref] @SQ ID:2'' @ tab @ ''NM:chr3'' @ tab @ ''LN:250'' @ nl,
        ''inu[readgroup] no read group dictionary found'' @ nl,
        ''inu[program] no program information found'' @ nl,
        ''inu[program] @CO '' @ apos @ ''by hand'' @ apos @ nl,
        ''inu[read] printing the first 10 reads'' @ nl,
        ''inu[read] r1'' @ nl, ''inu[read] r2'' @ nl, ''inu[read] r3'' @ nl,
        ''inu[read] 3 reads examined from the BAM file'' @ nl]
   \<and> bare_fs ''in.bam'' = Some bare_reader
   \<and> cout (main_inu sample_externals 2 plain_args bare_fs) =
       [''inu[headerline] no header line found'' @ nl,
        ''inu[ref] no reference sequences found'' @ nl,
        ''inu[readgroup] no read group dictionary found'' @ nl,
        ''inu[program] no program information found'' @ nl,
        ''inu[comment] no comment lines found'' @ nl,
        ''inu[read] printing the first 10 reads'' @ nl,
        ''inu[read] r1'' @ nl, ''inu[read] r2'' @ nl, ''inu[read] r3'' @ nl,
        ''inu[read] 3 reads examined from the BAM file'' @ nl]"
proof -
  define cfg where "cfg = initial_options \<lparr> input_file := ''in.bam'' \<rparr>"
  have c: "configure sample_externals 2 plain_args = Inr cfg"
    by (simp add: cfg_def configure_def plain_args_def initial_options_def)
  have q: "\<not> opt_quiet cfg"
    by (simp add: cfg_def initial_options_def)
  have f: "sample_fs (input_file cfg) = Some sample_reader"
    by (simp add: cfg_def sample_fs_def)
  have g: "bare_fs (input_file cfg) = Some bare_reader"
    by (simp add: cfg_def bare_fs_def)
  note with_comment =
    run_prints_comments_under_program_tag
      [where x = sample_externals and argc = 2 and args = plain_args and fs = sample_fs
         and rd = sample_reader, OF c f q, unfolded Let_def]
  note without_comment =
    run_prints_comments_under_program_tag
      [where x = sample_externals and argc = 2 and args = plain_args and fs = bare_fs
         and rd = bare_reader, OF c g q, unfolded Let_def]
  have a: "cout (main_inu sample_externals 2 plain_args sample_fs) =
       [''inu[headerline] VN:'' @ apos @ ''1.0'' @ apos @ nl,
        ''inu[ref] @SQ ID:0'' @ tab @ ''NM:chr1'' @ tab @ ''LN:1000'' @ nl,
        ''inu[ref] @SQ ID:1'' @ tab @ ''NM:chr2'' @ tab @ ''LN:500'' @ nl,
        ''inu[ref] @SQ ID:2'' @ tab @ ''NM:chr3'' @ tab @ ''LN:250'' @ nl,
        ''inu[readgroup] no read group dictionary found'' @ nl,
        ''inu[program] no program information found'' @ nl,
        ''inu[program] @CO '' @ apos @ ''by hand'' @ apos @ nl,
        ''inu[read] printing the first 10 reads'' @ nl,
        ''inu[read] r1'' @ nl, ''inu[read] r2'' @ nl, ''inu[read] r3'' @ nl,
        ''inu[read] 3 reads examined from the BAM file'' @ nl]"
    by (rule trans [OF with_comment])
       (simp add: cfg_def initial_options_def sample_defs section_defs text_defs)
  have b: "cout (main_inu sample_externals 2 plain_args bare_fs) =
       [''inu[headerline] no header line found'' @ nl,
        ''inu[ref] no reference sequences found'' @ nl,
        ''inu[readgroup] no read group dictionary found'' @ nl,
        ''inu[program] no program information found'' @ nl,
        ''inu[comment] no comment lines found'' @ nl,
        ''inu[read] printing the first 10 reads'' @ nl,
        ''inu[read] r1'' @ nl, ''inu[read] r2'' @ nl, ''inu[read] r3'' @ nl,
        ''inu[read] 3 reads examined from the BAM file'' @ nl]"
    by (rule trans [OF without_comment])
       (simp add: cfg_def initial_options_def sample_defs section_defs text_defs)
  have o: "sample_fs ''in.bam'' = Some sample_reader" by (simp add: sample_fs_def)
  have p: "bare_fs ''in.bam'' = Some bare_reader" by (simp add: bare_fs_def)
  show ?thesis using c q o p a b unfolding cfg_def by blast
qed

section \<open>The header line\<close>

text \<open>
  C9. In a run that opens its input and is not quiet, \<open>cout\<close> holds, right after the
  output of the validity check and of the raw header and right before the reference
  section: for a header with none of version, sort order and group order, the notice
  \<open>no header line found\<close> and no row of fields; for a header with at least one of them,
  one row, which holds exactly the fields that are present.
\<close>

theorem run_prints_header_line:
  assumes "configure x argc args = Inr cfg"
    and "fs (input_file cfg) = Some rd"
    and "\<not> opt_quiet cfg"
  shows
    "let header = GetHeader rd;
         refs = (if HasSequences header then GetReferenceData rd else []);
         loop = read_loop x cfg refs 0 (Alignments rd);
         before = validity_section x header @ raw_section x cfg header;
         after = ref_section x cfg rd @ readgroup_section x header
                   @ program_section x header @ comment_section x header
                   @ announce_section x cfg @ detail loop @ [tally_line x (n_reads loop)]
     in (\<not> HasVersion header \<and> \<not> HasSortOrder header \<and> \<not> HasGroupOrder header \<longrightarrow>
           cout (main_inu x argc args fs) =
             before @ [NAME x @ ''[headerline] no header line found'' @ nl] @ after)
        \<and> (HasVersion header \<or> HasSortOrder header \<or> HasGroupOrder header \<longrightarrow>
           cout (main_inu x argc args fs) =
             before @ [headerline_row x (present_fields header)] @ after)"
  using main_inu_cout [where fs = fs and rd = rd, OF assms(1) assms(2)] assms(3)
  by (simp add: Let_def headerline_section_def headerline_row_def present_fields_def)

theorem run_prints_header_line_witness:
  "configure sample_externals 2 plain_args = Inr (initial_options \<lparr> input_file := ''in.bam'' \<rparr>)
   \<and> \<not> opt_quiet (initial_options \<lparr> input_file := ''in.bam'' \<rparr>)
   \<and> sample_fs ''in.bam'' = Some sample_reader
   \<and> HasVersion (GetHeader sample_reader)
   \<and> present_fields (GetHeader sample_reader) = [(''VN'', ''1.0'')]
   \<and> take 2 (cout (main_inu sample_externals 2 plain_args sample_fs)) =
       [''inu[headerline] VN:'' @ apos @ ''1.0'' @ apos @ nl,
        ''inu[ref] @SQ ID:0'' @ tab @ ''NM:chr1'' @ tab @ ''LN:1000'' @ nl]
   \<and> bare_fs ''in.bam'' = Some bare_reader
   \<and> \<not> HasVersion (GetHeader bare_reader)
   \<and> \<not> HasSortOrder (GetHeader bare_reader)
   \<and> \<not> HasGroupOrder (GetHeader bare_reader)
   \<and> take 2 (cout (main_inu sample_externals 2 plain_args bare_fs)) =
       [''inu[headerline] no header line found'' @ nl,
        ''inu[ref] no reference sequences found'' @ nl]"
proof -
  define cfg where "cfg = initial_options \<lparr> input_file := ''in.bam'' \<rparr>"
  have c: "configure sample_externals 2 plain_args = Inr cfg"
    by (simp add: cfg_def configure_def plain_args_def initial_options_def)
  have q: "\<not> opt_quiet cfg"
    by (simp add: cfg_def initial_options_def)
  have f: "sample_fs (input_file cfg) = Some sample_reader"
    by (simp add: cfg_def sample_fs_def)
  have g: "bare_fs (input_file cfg) = Some bare_reader"
    by (simp add: cfg_def bare_fs_def)
  have v: "HasVersion (GetHeader sample_reader)"
    by (simp add: sample_reader_def sample_header_def)
  have pf: "present_fields (GetHeader sample_reader) = [(''VN'', ''1.0'')]"
    by (simp add: present_fields_def sample_reader_def sample_header_def)
  have n: "\<not> HasVersion (GetHeader bare_reader) \<and> \<not> HasSortOrder (GetHeader bare_reader)
      \<and> \<not> HasGroupOrder (GetHeader bare_reader)"
    by (simp add: bare_reader_def sample_header_def)
  note with_row =
    run_prints_header_line
      [where x = sample_externals and argc = 2 and args = plain_args and fs = sample_fs
         and rd = sample_reader, OF c f q, unfolded Let_def, THEN conjunct2, rule_format]
  note without_row =
    run_prints_header_line
      [where x = sample_externals and argc = 2 and args = plain_args and fs = bare_fs
         and rd = bare_reader, OF c g q, unfolded Let_def, THEN conjunct1, rule_format]
  have a: "take 2 (cout (main_inu sample_externals 2 plain_args sample_fs)) =
       [''inu[headerline] VN:'' @ apos @ ''1.0'' @ apos @ nl,
        ''inu[ref] @SQ ID:0'' @ tab @ ''NM:chr1'' @ tab @ ''LN:1000'' @ nl]"
    by (subst with_row, simp add: v)
       (simp add: present_fields_def headerline_row_def cfg_def initial_options_def
          sample_defs section_defs text_defs)
  have b: "take 2 (cout (main_inu sample_externals 2 plain_args bare_fs)) =
       [''inu[headerline] no header line found'' @ nl,
        ''inu[ref] no reference sequences found'' @ nl]"
    by (subst without_row, simp add: n)
       (simp add: cfg_def initial_options_def bare_reader_def sample_defs section_defs
          text_defs)
  have o: "sample_fs ''in.bam'' = Some sample_reader" by (simp add: sample_fs_def)
  have p: "bare_fs ''in.bam'' = Some bare_reader" by (simp add: bare_fs_def)
  show ?thesis using c q o p v pf n a b unfolding cfg_def by blast
qed

section \<open>The quiet run\<close>

text \<open>
  C4. In a run that opened its input with the quiet flag set and the raw flag unset,
  \<open>cout\<close> holds what the validity check of the header wrote and nothing after it: no
  header line and no reference, read group, program, comment or read section. Nothing
  is written to \<open>cerr\<close>, the input is closed and the exit code is 0.
\<close>

theorem quiet_run_stops_after_validity_check:
  assumes "configure x argc args = Inr cfg"
    and "fs (input_file cfg) = Some rd"
    and "opt_quiet cfg"
    and "\<not> opt_raw cfg"
  shows "cout (main_inu x argc args fs) = validity_section x (GetHeader rd)
    \<and> cerr (main_inu x argc args fs) = []
    \<and> closed (main_inu x argc args fs)
    \<and> exit_code (main_inu x argc args fs) = 0"
  using assms by (simp add: main_inu_def report_def raw_section_def Let_def)

theorem quiet_run_stops_after_validity_check_witness:
  "configure sample_externals 3 quiet_args
     = Inr (initial_options \<lparr> opt_quiet := True, input_file := ''in.bam'' \<rparr>)
   \<and> sample_fs ''in.bam'' = Some sample_reader
   \<and> cout (main_inu sample_externals 3 quiet_args sample_fs) = []
   \<and> cerr (main_inu sample_externals 3 quiet_args sample_fs) = []
   \<and> closed (main_inu sample_externals 3 quiet_args sample_fs)
   \<and> exit_code (main_inu sample_externals 3 quiet_args sample_fs) = 0"
proof -
  have c: "configure sample_externals 3 quiet_args
     = Inr (initial_options \<lparr> opt_quiet := True, input_file := ''in.bam'' \<rparr>)"
    by (simp add: configure_def quiet_args_def initial_options_def)
  have f: "sample_fs (input_file (initial_options \<lparr> opt_quiet := True, input_file := ''in.bam'' \<rparr>))
     = Some sample_reader"
    by (simp add: sample_fs_def)
  have q: "opt_quiet (initial_options \<lparr> opt_quiet := True, input_file := ''in.bam'' \<rparr>)"
    by simp
  have r: "\<not> opt_raw (initial_options \<lparr> opt_quiet := True, input_file := ''in.bam'' \<rparr>)"
    by (simp add: initial_options_def)
  have v: "validity_section sample_externals (GetHeader sample_reader) = []"
    by (simp add: validity_section_def sample_reader_def sample_header_def)
  show ?thesis
    using quiet_run_stops_after_validity_check
        [where x = sample_externals and argc = 3 and args = quiet_args and fs = sample_fs
           and rd = sample_reader, OF c f q r] c v
    by (simp add: sample_fs_def)
qed

section \<open>An invalid header\<close>

lemma report_cout_invalid_header:
  assumes "\<not> IsValid (GetHeader rd)"
  shows "cout (report x cfg rd) =
     [NAME x @ '' header not well-formed, errors are:'' @ nl, GetErrorString (GetHeader rd) @ nl]
       @ cout (report x cfg (rd \<lparr> GetHeader := (GetHeader rd) \<lparr> IsValid := True \<rparr> \<rparr>))"
  using assms
  by (simp add: report_def Let_def validity_section_def raw_section_def headerline_section_def
        ref_section_def GetReferenceCount_def readgroup_section_def program_section_def
        comment_section_def)

text \<open>
  C8. When the validity check of the header fails, a run that opens its input writes
  the notice and the error text of the validator and goes on: \<open>cout\<close> continues with the
  raw header section and, unless the quiet flag is set, with the header line, the
  reference, read group, program and comment sections, the announcement, the detailed
  read lines and the tally. This is exactly what the run writes for the same input with
  a header that passes the check, after the two lines of the validator. The input is
  closed and the exit code is 0, as for the valid header.
\<close>

theorem invalid_header_is_reported_and_not_fatal:
  assumes "configure x argc args = Inr cfg"
    and "fs (input_file cfg) = Some rd"
    and "\<not> IsValid (GetHeader rd)"
  shows
    "let header = GetHeader rd;
         refs = (if HasSequences header then GetReferenceData rd else []);
         loop = read_loop x cfg refs 0 (Alignments rd);
         valid_fs = fs (input_file cfg := Some (rd \<lparr> GetHeader := header \<lparr> IsValid := True \<rparr> \<rparr>))
     in cout (main_inu x argc args fs) =
          [NAME x @ '' header not well-formed, errors are:'' @ nl, GetErrorString header @ nl]
          @ raw_section x cfg header
          @ (if opt_quiet cfg then []
             else headerline_section x header @ ref_section x cfg rd
               @ readgroup_section x header @ program_section x header
               @ comment_section x header @ announce_section x cfg
               @ detail loop @ [tally_line x (n_reads loop)])
        \<and> cout (main_inu x argc args fs) =
            [NAME x @ '' header not well-formed, errors are:'' @ nl, GetErrorString header @ nl]
            @ cout (main_inu x argc args valid_fs)
        \<and> exit_code (main_inu x argc args fs) = 0
        \<and> closed (main_inu x argc args fs)
        \<and> exit_code (main_inu x argc args valid_fs) = 0"
proof -
  have layout: "cout (main_inu x argc args fs) =
      [NAME x @ '' header not well-formed, errors are:'' @ nl, GetErrorString (GetHeader rd) @ nl]
      @ raw_section x cfg (GetHeader rd)
      @ (if opt_quiet cfg then []
         else headerline_section x (GetHeader rd) @ ref_section x cfg rd
           @ readgroup_section x (GetHeader rd) @ program_section x (GetHeader rd)
           @ comment_section x (GetHeader rd) @ announce_section x cfg
           @ detail (read_loop x cfg
                (if HasSequences (GetHeader rd) then GetReferenceData rd else [])
                0 (Alignments rd))
           @ [tally_line x
                (n_reads (read_loop x cfg
                   (if HasSequences (GetHeader rd) then GetReferenceData rd else [])
                   0 (Alignments rd)))])"
    using main_inu_cout [where fs = fs and rd = rd, OF assms(1) assms(2)] assms(3)
    by (simp add: validity_section_def)
  have twin: "cout (main_inu x argc args fs) =
      [NAME x @ '' header not well-formed, errors are:'' @ nl, GetErrorString (GetHeader rd) @ nl]
      @ cout (main_inu x argc args
                (fs (input_file cfg :=
                       Some (rd \<lparr> GetHeader := (GetHeader rd) \<lparr> IsValid := True \<rparr> \<rparr>))))"
    using assms report_cout_invalid_header [OF assms(3), of x cfg]
    by (simp add: main_inu_def)
  have codes: "exit_code (main_inu x argc args fs) = 0 \<and> closed (main_inu x argc args fs)
      \<and> exit_code (main_inu x argc args
            (fs (input_file cfg :=
                   Some (rd \<lparr> GetHeader := (GetHeader rd) \<lparr> IsValid := True \<rparr> \<rparr>)))) = 0"
    using assms by (simp add: main_inu_def report_exit report_closed)
  show ?thesis
    unfolding Let_def using layout twin codes by blast
qed

theorem invalid_header_is_reported_and_not_fatal_witness:
  "configure sample_externals 2 plain_args = Inr (initial_options \<lparr> input_file := ''in.bam'' \<rparr>)
   \<and> invalid_fs ''in.bam'' = Some invalid_reader
   \<and> \<not> IsValid (GetHeader invalid_reader)
   \<and> cout (main_inu sample_externals 2 plain_args invalid_fs) =
       [''inu header not well-formed, errors are:'' @ nl,
        ''bad @HD'' @ nl,
        ''inu[headerline] VN:'' @ apos @ ''1.0'' @ apos @ nl,
        ''inu[ref] @SQ ID:0'' @ tab @ ''NM:chr1'' @ tab @ ''LN:1000'' @ nl,
        ''inu[ref] @SQ ID:1'' @ tab @ ''NM:chr2'' @ tab @ ''LN:500'' @ nl,
        ''inu[ref] @SQ ID:2'' @ tab @ ''NM:chr3'' @ tab @ ''LN:250'' @ nl,
        ''inu[readgroup] no read group dictionary found'' @ nl,
        ''inu[program] no program information found'' @ nl,
        ''inu[program] @CO '' @ apos @ ''by hand'' @ apos @ nl,
        ''inu[read] printing the first 10 reads'' @ nl,
        ''inu[read] r1'' @ nl, ''inu[read] r2'' @ nl, ''inu[read] r3'' @ nl,
        ''inu[read] 3 reads examined from the BAM file'' @ nl]
   \<and> exit_code (main_inu sample_externals 2 plain_args invalid_fs) = 0
   \<and> closed (main_inu sample_externals 2 plain_args invalid_fs)"
proof -
  define cfg where "cfg = initial_options \<lparr> input_file := ''in.bam'' \<rparr>"
  have c: "configure sample_externals 2 plain_args = Inr cfg"
    by (simp add: cfg_def configure_def plain_args_def initial_options_def)
  have f: "invalid_fs (input_file cfg) = Some invalid_reader"
    by (simp add: cfg_def invalid_fs_def)
  have i: "\<not> IsValid (GetHeader invalid_reader)"
    by (simp add: invalid_reader_def)
  note run =
    invalid_header_is_reported_and_not_fatal
      [where x = sample_externals and argc = 2 and args = plain_args and fs = invalid_fs
         and rd = invalid_reader, OF c f i, unfolded Let_def]
  have a: "cout (main_inu sample_externals 2 plain_args invalid_fs) =
       [''inu header not well-formed, errors are:'' @ nl,
        ''bad @HD'' @ nl,
        ''inu[headerline] VN:'' @ apos @ ''1.0'' @ apos @ nl,
        ''inu[ref] @SQ ID:0'' @ tab @ ''NM:chr1'' @ tab @ ''LN:1000'' @ nl,
        ''inu[ref] @SQ ID:1'' @ tab @ ''NM:chr2'' @ tab @ ''LN:500'' @ nl,
        ''inu[ref] @SQ ID:2'' @ tab @ ''NM:chr3'' @ tab @ ''LN:250'' @ nl,
        ''inu[readgroup] no read group dictionary found'' @ nl,
        ''inu[program] no program information found'' @ nl,
        ''inu[program] @CO '' @ apos @ ''by hand'' @ apos @ nl,
        ''inu[read] printing the first 10 reads'' @ nl,
        ''inu[read] r1'' @ nl, ''inu[read] r2'' @ nl, ''inu[read] r3'' @ nl,
        ''inu[read] 3 reads examined from the BAM file'' @ nl]"
    by (rule trans [OF run [THEN conjunct1]])
       (simp add: cfg_def initial_options_def sample_defs section_defs text_defs)
  have z: "exit_code (main_inu sample_externals 2 plain_args invalid_fs) = 0"
    using run [THEN conjunct2, THEN conjunct2, THEN conjunct1] .
  have k: "closed (main_inu sample_externals 2 plain_args invalid_fs)"
    using run [THEN conjunct2, THEN conjunct2, THEN conjunct2, THEN conjunct1] .
  have o: "invalid_fs ''in.bam'' = Some invalid_reader" by (simp add: invalid_fs_def)
  show ?thesis using c o i a z k unfolding cfg_def by blast
qed

section \<open>Exit codes\<close>

text \<open>
  C7. The exit code is 0 when the command line is accepted and the input opens, and 1
  otherwise. In particular it is 1 with more than one positional file, whatever the
  options are; with an option the parser rejects; and when the input does not open. A
  run that opens its input is the report on it, and ends with 0.
\<close>

theorem exit_code_of_main_inu:
  "exit_code (main_inu x argc args fs) =
      (if (\<exists>cfg rd. configure x argc args = Inr cfg \<and> fs (input_file cfg) = Some rd)
       then 0 else 1)
   \<and> (1 < length (files args) \<longrightarrow> exit_code (main_inu x argc args fs) = 1)
   \<and> ((\<exists>t. Invalid t \<in> set (events args)) \<longrightarrow> exit_code (main_inu x argc args fs) = 1)
   \<and> (\<forall>cfg. configure x argc args = Inr cfg \<and> fs (input_file cfg) = None \<longrightarrow>
         exit_code (main_inu x argc args fs) = 1)
   \<and> (\<forall>cfg rd. configure x argc args = Inr cfg \<and> fs (input_file cfg) = Some rd \<longrightarrow>
         main_inu x argc args fs = report x cfg rd
         \<and> exit_code (main_inu x argc args fs) = 0)"
proof -
  have usage_error: "exit_code (main_inu x argc args fs) = 1"
    if "configure x argc args = Inl r" for r
    using that configure_exit [OF that] by (simp add: main_inu_def)
  have open_failure: "exit_code (main_inu x argc args fs) = 1"
    if "configure x argc args = Inr cfg" and "fs (input_file cfg) = None" for cfg
    using that by (simp add: main_inu_def early_exit_def)
  have success: "main_inu x argc args fs = report x cfg rd
      \<and> exit_code (main_inu x argc args fs) = 0"
    if "configure x argc args = Inr cfg" and "fs (input_file cfg) = Some rd" for cfg rd
    using that by (simp add: main_inu_def report_exit)
  have first: "exit_code (main_inu x argc args fs) =
      (if (\<exists>cfg rd. configure x argc args = Inr cfg \<and> fs (input_file cfg) = Some rd)
       then 0 else 1)"
  proof (cases "configure x argc args")
    case (Inl r)
    then show ?thesis using usage_error by simp
  next
    case (Inr cfg)
    then show ?thesis
      using open_failure [of cfg] success [of cfg]
      by (cases "fs (input_file cfg)") (simp_all add: report_exit)
  qed
  have two: "1 < length (files args) \<longrightarrow> exit_code (main_inu x argc args fs) = 1"
    using configure_two_files [of args x argc] usage_error by blast
  have bad: "(\<exists>t. Invalid t \<in> set (events args)) \<longrightarrow> exit_code (main_inu x argc args fs) = 1"
    using configure_invalid [of _ args x argc] usage_error by blast
  show ?thesis using first two bad open_failure success by blast
qed

theorem exit_code_of_main_inu_witness:
  "1 < length (files two_file_args)
   \<and> exit_code (main_inu sample_externals 3 two_file_args sample_fs) = 1
   \<and> Invalid ''--bogus'' \<in> set (events bad_option_args)
   \<and> exit_code (main_inu sample_externals 3 bad_option_args sample_fs) = 1
   \<and> configure sample_externals 2 missing_file_args
       = Inr (initial_options \<lparr> input_file := ''none.bam'' \<rparr>)
   \<and> sample_fs ''none.bam'' = None
   \<and> exit_code (main_inu sample_externals 2 missing_file_args sample_fs) = 1
   \<and> configure sample_externals 2 plain_args
       = Inr (initial_options \<lparr> input_file := ''in.bam'' \<rparr>)
   \<and> sample_fs ''in.bam'' = Some sample_reader
   \<and> exit_code (main_inu sample_externals 2 plain_args sample_fs) = 0"
proof -
  have a: "1 < length (files two_file_args)"
    by (simp add: two_file_args_def)
  have b: "Invalid ''--bogus'' \<in> set (events bad_option_args)"
    by (simp add: bad_option_args_def)
  have c: "configure sample_externals 2 missing_file_args
       = Inr (initial_options \<lparr> input_file := ''none.bam'' \<rparr>)"
    by (simp add: configure_def missing_file_args_def initial_options_def)
  have d: "sample_fs (input_file (initial_options \<lparr> input_file := ''none.bam'' \<rparr>)) = None"
    by (simp add: sample_fs_def)
  have e: "configure sample_externals 2 plain_args
       = Inr (initial_options \<lparr> input_file := ''in.bam'' \<rparr>)"
    by (simp add: configure_def plain_args_def initial_options_def)
  have f: "sample_fs (input_file (initial_options \<lparr> input_file := ''in.bam'' \<rparr>))
       = Some sample_reader"
    by (simp add: sample_fs_def)
  have two: "exit_code (main_inu sample_externals 3 two_file_args sample_fs) = 1"
    using a exit_code_of_main_inu [of sample_externals 3 two_file_args sample_fs] by blast
  have bad: "exit_code (main_inu sample_externals 3 bad_option_args sample_fs) = 1"
    using b exit_code_of_main_inu [of sample_externals 3 bad_option_args sample_fs] by blast
  have missing: "exit_code (main_inu sample_externals 2 missing_file_args sample_fs) = 1"
    using c d exit_code_of_main_inu [of sample_externals 2 missing_file_args sample_fs] by blast
  have good: "exit_code (main_inu sample_externals 2 plain_args sample_fs) = 0"
    using e f exit_code_of_main_inu [of sample_externals 2 plain_args sample_fs] by blast
  show ?thesis
    using a b c e two bad missing good by (simp add: sample_fs_def)
qed


section \<open>Positional files\<close>

text \<open>
  C6, as the claim states it, fails for the invocation without any argument: there is
  no positional file, standard input holds a BAM file, and the run prints the usage
  text and returns 1 without opening anything.
\<close>

theorem no_arguments_counterexample:
  "files no_args = []
   \<and> stdin_fs ''/dev/stdin'' = Some sample_reader
   \<and> exit_code (main_inu sample_externals 1 no_args stdin_fs) = 1
   \<and> opened (main_inu sample_externals 1 no_args stdin_fs) = None
   \<and> cout (main_inu sample_externals 1 no_args stdin_fs) = []
   \<and> cerr (main_inu sample_externals 1 no_args stdin_fs) = usage sample_externals initial_options"
  by (simp add: main_inu_def configure_def early_exit_def no_args_def stdin_fs_def)

text \<open>
  C6, amended. With fewer than two entries in \<open>argv\<close> (no argument at all) the run
  prints the usage text and returns 1. Otherwise, when the options loop ends without a
  return: with no positional file the input is \<open>/dev/stdin\<close>, with one positional file
  it is that file, and in both cases a reader found there is opened and reported on;
  with more than one positional file the run prints the complaint and the usage text
  and returns 1.
\<close>

theorem positional_files:
  "(argc < 2 \<longrightarrow> main_inu x argc args fs = early_exit (usage x initial_options) 1)
   \<and> (2 \<le> argc \<and> options_loop x initial_options (events args) = Inr cfg \<longrightarrow>
        (files args = [] \<longrightarrow>
           configure x argc args = Inr (cfg \<lparr> input_file := ''/dev/stdin'' \<rparr>)
           \<and> (\<forall>rd. fs ''/dev/stdin'' = Some rd \<longrightarrow>
                 main_inu x argc args fs = report x (cfg \<lparr> input_file := ''/dev/stdin'' \<rparr>) rd
                 \<and> opened (main_inu x argc args fs) = Some ''/dev/stdin''))
        \<and> (\<forall>f. files args = [f] \<longrightarrow>
              configure x argc args = Inr (cfg \<lparr> input_file := f \<rparr>)
              \<and> (\<forall>rd. fs f = Some rd \<longrightarrow>
                    main_inu x argc args fs = report x (cfg \<lparr> input_file := f \<rparr>) rd
                    \<and> opened (main_inu x argc args fs) = Some f))
        \<and> (1 < length (files args) \<longrightarrow>
              main_inu x argc args fs =
                early_exit
                  ([NAME x @ '' requires at most one BAM file specified as input'' @ nl]
                     @ usage x cfg) 1))"
proof -
  have none: "argc < 2 \<longrightarrow> main_inu x argc args fs = early_exit (usage x initial_options) 1"
    by (simp add: main_inu_def configure_def)
  have stdin: "files args = [] \<longrightarrow>
      configure x argc args = Inr (cfg \<lparr> input_file := ''/dev/stdin'' \<rparr>)"
    if "2 \<le> argc" and "options_loop x initial_options (events args) = Inr cfg"
  proof -
    have "input_file cfg = []"
      using options_loop_input_file [OF that(2)] by (simp add: initial_options_def)
    then show ?thesis using that by (simp add: configure_def)
  qed
  have one: "files args = [f] \<longrightarrow> configure x argc args = Inr (cfg \<lparr> input_file := f \<rparr>)"
    if "2 \<le> argc" and "options_loop x initial_options (events args) = Inr cfg" for f
    using that by (simp add: configure_def)
  have many: "1 < length (files args) \<longrightarrow>
      main_inu x argc args fs =
        early_exit
          ([NAME x @ '' requires at most one BAM file specified as input'' @ nl] @ usage x cfg) 1"
    if "2 \<le> argc" and "options_loop x initial_options (events args) = Inr cfg"
    using that by (cases "files args"; cases "tl (files args)")
      (auto simp: main_inu_def configure_def)
  have run: "configure x argc args = Inr (cfg \<lparr> input_file := p \<rparr>) \<and> fs p = Some rd \<longrightarrow>
      main_inu x argc args fs = report x (cfg \<lparr> input_file := p \<rparr>) rd
      \<and> opened (main_inu x argc args fs) = Some p" for p rd
    by (simp add: main_inu_def report_opened)
  show ?thesis
  proof (intro conjI impI allI)
    show "main_inu x argc args fs = early_exit (usage x initial_options) 1" if "argc < 2"
      using that none by blast
  next
    assume h: "2 \<le> argc \<and> options_loop x initial_options (events args) = Inr cfg"
    show "configure x argc args = Inr (cfg \<lparr> input_file := ''/dev/stdin'' \<rparr>)"
      if "files args = []"
      using that h stdin by blast
    show "main_inu x argc args fs = report x (cfg \<lparr> input_file := ''/dev/stdin'' \<rparr>) rd"
      if "files args = []" and "fs ''/dev/stdin'' = Some rd" for rd
      using that h stdin run [of "''/dev/stdin''" rd] by blast
    show "opened (main_inu x argc args fs) = Some ''/dev/stdin''"
      if "files args = []" and "fs ''/dev/stdin'' = Some rd" for rd
      using that h stdin run [of "''/dev/stdin''" rd] by blast
    show "configure x argc args = Inr (cfg \<lparr> input_file := f \<rparr>)"
      if "files args = [f]" for f
      using that h one [of f] by blast
    show "main_inu x argc args fs = report x (cfg \<lparr> input_file := f \<rparr>) rd"
      if "files args = [f]" and "fs f = Some rd" for f rd
      using that h one [of f] run [of f rd] by blast
    show "opened (main_inu x argc args fs) = Some f"
      if "files args = [f]" and "fs f = Some rd" for f rd
      using that h one [of f] run [of f rd] by blast
    show "main_inu x argc args fs =
        early_exit
          ([NAME x @ '' requires at most one BAM file specified as input'' @ nl] @ usage x cfg) 1"
      if "1 < length (files args)"
      using that h many by blast
  qed
qed

theorem positional_files_witness:
  "(2::int) \<le> 3
   \<and> options_loop sample_externals initial_options (events quiet_stdin_args)
       = Inr (initial_options \<lparr> opt_quiet := True \<rparr>)
   \<and> files quiet_stdin_args = []
   \<and> stdin_fs ''/dev/stdin'' = Some sample_reader
   \<and> opened (main_inu sample_externals 3 quiet_stdin_args stdin_fs) = Some ''/dev/stdin''
   \<and> files quiet_args = [''in.bam'']
   \<and> sample_fs ''in.bam'' = Some sample_reader
   \<and> opened (main_inu sample_externals 3 quiet_args sample_fs) = Some ''in.bam''
   \<and> options_loop sample_externals initial_options (events two_file_args) = Inr initial_options
   \<and> 1 < length (files two_file_args)
   \<and> exit_code (main_inu sample_externals 3 two_file_args sample_fs) = 1
   \<and> (1::int) < 2
   \<and> exit_code (main_inu sample_externals 1 no_args stdin_fs) = 1"
proof -
  have l1: "options_loop sample_externals initial_options (events quiet_stdin_args)
       = Inr (initial_options \<lparr> opt_quiet := True \<rparr>)"
    by (simp add: quiet_stdin_args_def)
  have l2: "options_loop sample_externals initial_options (events quiet_args)
       = Inr (initial_options \<lparr> opt_quiet := True \<rparr>)"
    by (simp add: quiet_args_def)
  have l3: "options_loop sample_externals initial_options (events two_file_args)
       = Inr initial_options"
    by (simp add: two_file_args_def)
  have f1: "files quiet_stdin_args = []" by (simp add: quiet_stdin_args_def)
  have f2: "files quiet_args = [''in.bam'']" by (simp add: quiet_args_def)
  have f3: "1 < length (files two_file_args)" by (simp add: two_file_args_def)
  have o1: "stdin_fs ''/dev/stdin'' = Some sample_reader" by (simp add: stdin_fs_def)
  have o2: "sample_fs ''in.bam'' = Some sample_reader" by (simp add: sample_fs_def)
  have n: "(2::int) \<le> 3" by simp
  have m: "(1::int) < 2" by simp
  have a: "opened (main_inu sample_externals 3 quiet_stdin_args stdin_fs) = Some ''/dev/stdin''"
    using n l1 f1 o1
      positional_files [of 3 sample_externals quiet_stdin_args stdin_fs
        "initial_options \<lparr> opt_quiet := True \<rparr>"]
    by blast
  have b: "opened (main_inu sample_externals 3 quiet_args sample_fs) = Some ''in.bam''"
    using n l2 f2 o2
      positional_files [of 3 sample_externals quiet_args sample_fs
        "initial_options \<lparr> opt_quiet := True \<rparr>"]
    by blast
  have "main_inu sample_externals 3 two_file_args sample_fs =
      early_exit
        ([NAME sample_externals @ '' requires at most one BAM file specified as input'' @ nl]
           @ usage sample_externals initial_options) 1"
    using n l3 f3
      positional_files [of 3 sample_externals two_file_args sample_fs initial_options]
    by blast
  then have c: "exit_code (main_inu sample_externals 3 two_file_args sample_fs) = 1"
    by (simp add: early_exit_def)
  have "main_inu sample_externals 1 no_args stdin_fs
      = early_exit (usage sample_externals initial_options) 1"
    using m positional_files [of 1 sample_externals no_args stdin_fs initial_options]
    by blast
  then have d: "exit_code (main_inu sample_externals 1 no_args stdin_fs) = 1"
    by (simp add: early_exit_def)
  show ?thesis using n m l1 l3 f1 f2 f3 o1 o2 a b c d by blast
qed

section \<open>A read that fails\<close>

lemma report_ignores_StreamEnd:
  "report x cfg (rd \<lparr> StreamEnd := e \<rparr>) = report x cfg rd"
  by (simp add: report_def Let_def ref_section_def GetReferenceCount_def)

text \<open>
  C5, as the claim states it, fails: the reader delivers two records and then a read
  fails; the run prints the tally of two reads, writes nothing to \<open>cerr\<close>, closes the
  input and returns 0.
\<close>

theorem failed_read_counterexample:
  "StreamEnd failing_reader = ReadError
   \<and> failing_fs ''in.bam'' = Some failing_reader
   \<and> exit_code (main_inu sample_externals 2 plain_args failing_fs) = 0
   \<and> cerr (main_inu sample_externals 2 plain_args failing_fs) = []
   \<and> closed (main_inu sample_externals 2 plain_args failing_fs)
   \<and> last (cout (main_inu sample_externals 2 plain_args failing_fs))
       = ''inu[read] 2 reads examined from the BAM file'' @ nl"
  by (simp add: run_defs)

text \<open>
  C5, amended. A read that fails ends the loop as the end of the file does: the run is
  the same, in every part of its result, as the run on the same input ending with the
  end of the file. The input is closed, the exit code is 0, and unless the quiet flag
  is set the last line on \<open>cout\<close> is the tally of the records read before the failure.
\<close>

theorem failed_read_ends_the_loop_silently:
  assumes "configure x argc args = Inr cfg"
    and "fs (input_file cfg) = Some rd"
    and "StreamEnd rd = ReadError"
  shows "main_inu x argc args fs
       = main_inu x argc args (fs (input_file cfg := Some (rd \<lparr> StreamEnd := EndOfFile \<rparr>)))
    \<and> exit_code (main_inu x argc args fs) = 0
    \<and> closed (main_inu x argc args fs)
    \<and> (\<not> opt_quiet cfg \<longrightarrow>
          last (cout (main_inu x argc args fs))
            = tally_line x
                (n_reads (read_loop x cfg
                   (if HasSequences (GetHeader rd) then GetReferenceData rd else [])
                   0 (Alignments rd))))"
  using assms
  by (simp add: main_inu_def report_ignores_StreamEnd report_exit report_closed)
     (simp add: report_def Let_def)

theorem failed_read_ends_the_loop_silently_witness:
  "configure sample_externals 2 plain_args = Inr (initial_options \<lparr> input_file := ''in.bam'' \<rparr>)
   \<and> failing_fs ''in.bam'' = Some failing_reader
   \<and> StreamEnd failing_reader = ReadError
   \<and> main_inu sample_externals 2 plain_args failing_fs
       = main_inu sample_externals 2 plain_args
           (failing_fs (''in.bam'' := Some (failing_reader \<lparr> StreamEnd := EndOfFile \<rparr>)))
   \<and> exit_code (main_inu sample_externals 2 plain_args failing_fs) = 0"
proof -
  have c: "configure sample_externals 2 plain_args
     = Inr (initial_options \<lparr> input_file := ''in.bam'' \<rparr>)"
    by (simp add: configure_def plain_args_def initial_options_def)
  have f: "failing_fs (input_file (initial_options \<lparr> input_file := ''in.bam'' \<rparr>))
     = Some failing_reader"
    by (simp add: failing_fs_def)
  have e: "StreamEnd failing_reader = ReadError"
    by (simp add: failing_reader_def)
  note run =
    failed_read_ends_the_loop_silently
      [where x = sample_externals and argc = 2 and args = plain_args and fs = failing_fs
         and rd = failing_reader, OF c f e]
  have same: "main_inu sample_externals 2 plain_args failing_fs
       = main_inu sample_externals 2 plain_args
           (failing_fs (''in.bam'' := Some (failing_reader \<lparr> StreamEnd := EndOfFile \<rparr>)))"
    using run [THEN conjunct1] by simp
  have zero: "exit_code (main_inu sample_externals 2 plain_args failing_fs) = 0"
    using run [THEN conjunct2, THEN conjunct1] .
  have o: "failing_fs ''in.bam'' = Some failing_reader"
    by (simp add: failing_fs_def)
  show ?thesis
    using c o e same zero by blast
qed


section \<open>Signed and unsigned readings of a count\<close>

lemma uint_nonneg_sint:
  assumes "0 \<le> sint (w :: 32 word)"
  shows "uint w = sint w"
proof -
  have "sint w < 2 ^ 32" using sint_less [of w] by simp
  with assms have "take_bit 32 (sint w) = sint w" by (simp add: take_bit_int_eq_self)
  then show ?thesis using uint_sint [of w] by simp
qed

lemma unat_nonneg_sint:
  assumes "0 \<le> sint (w :: 32 word)"
  shows "unat w = nat (sint w)"
proof -
  have "unat w = nat (uint w)" by (rule unat_eq_nat_uint)
  then show ?thesis by (simp only: uint_nonneg_sint [OF assms])
qed

lemma unat_scast_nonneg:
  assumes "0 \<le> sint (w :: 32 word)"
  shows "unat (scast w :: 64 word) = nat (sint w)"
proof -
  have "sint w < 2 ^ 64" using sint_less [of w] by simp
  with assms have "take_bit 64 (sint w) = sint w" by (simp add: take_bit_int_eq_self)
  then have "uint (word_of_int (sint w) :: 64 word) = sint w"
    by (simp only: uint_word_of_int_eq) simp
  then have "uint (scast w :: 64 word) = sint w" by (simp only: scast_eq)
  moreover have "unat (scast w :: 64 word) = nat (uint (scast w :: 64 word))"
    by (rule unat_eq_nat_uint)
  ultimately show ?thesis by (simp only:)
qed

section \<open>The raw header\<close>

lemma raw_section_nonneg:
  assumes "opt_raw cfg"
    and "0 \<le> sint (opt_raw_to_report cfg)"
  shows "raw_section x cfg header =
      (if int (length (ToString header)) > sint (opt_raw_to_report cfg)
       then [NAME x @ '' header string, first ''
               @ string_of_int (sint (opt_raw_to_report cfg)) @ '' characters:'' @ nl,
             take (nat (sint (opt_raw_to_report cfg))) (ToString header),
             nl]
       else [NAME x @ '' header string, complete contents:'' @ nl, ToString header])"
proof -
  have u: "unat (opt_raw_to_report cfg) = nat (sint (opt_raw_to_report cfg))"
    by (rule unat_nonneg_sint [OF assms(2)])
  have s: "unat (scast (opt_raw_to_report cfg) :: 64 word) = nat (sint (opt_raw_to_report cfg))"
    by (rule unat_scast_nonneg [OF assms(2)])
  have c: "(nat (sint (opt_raw_to_report cfg)) < length (ToString header))
      = (sint (opt_raw_to_report cfg) < int (length (ToString header)))"
    using assms(2) by linarith
  show ?thesis
    using assms by (auto simp: raw_section_def Let_def u s c)
qed

text \<open>
  C3, as the claim states it, fails for a negative bound. The run
  \<open>inu --raw --raw-to-report -1 in.bam\<close> opens a file whose header text has 10
  characters, more than the bound; it prints the complete contents, all 10 characters,
  without a truncation notice, and min(10, -1) is not 10.
\<close>

theorem negative_raw_to_report_counterexample:
  "configure sample_externals 5 negative_raw_args
     = Inr (initial_options \<lparr> opt_raw := True, opt_raw_to_report := - 1, input_file := ''in.bam'' \<rparr>)
   \<and> sample_fs ''in.bam'' = Some sample_reader
   \<and> sint (- 1 :: 32 word) = - 1
   \<and> int (length (ToString (GetHeader sample_reader))) = 10
   \<and> cout (main_inu sample_externals 5 negative_raw_args sample_fs) =
       [''inu header string, complete contents:'' @ nl,
        ''@HD VN:1.0'',
        ''inu[headerline] VN:'' @ apos @ ''1.0'' @ apos @ nl,
        ''inu[ref] @SQ ID:0'' @ tab @ ''NM:chr1'' @ tab @ ''LN:1000'' @ nl,
        ''inu[ref] @SQ ID:1'' @ tab @ ''NM:chr2'' @ tab @ ''LN:500'' @ nl,
        ''inu[ref] @SQ ID:2'' @ tab @ ''NM:chr3'' @ tab @ ''LN:250'' @ nl,
        ''inu[readgroup] no read group dictionary found'' @ nl,
        ''inu[program] no program information found'' @ nl,
        ''inu[program] @CO '' @ apos @ ''by hand'' @ apos @ nl,
        ''inu[read] printing the first 10 reads'' @ nl,
        ''inu[read] r1'' @ nl, ''inu[read] r2'' @ nl, ''inu[read] r3'' @ nl,
        ''inu[read] 3 reads examined from the BAM file'' @ nl]
   \<and> int (length ''@HD VN:1.0'')
       \<noteq> min (int (length (ToString (GetHeader sample_reader)))) (sint (- 1 :: 32 word))"
  by (simp add: run_defs unsigned_minus_1_eq_mask mask_eq_exp_minus_1)

text \<open>
  C3, amended. In a run that opens its input with the raw flag set and raw-to-report
  not negative, \<open>cout\<close> holds, right after the output of the validity check: if the
  header text is strictly longer than raw-to-report, the notice \<open>first N characters\<close>,
  then the first raw-to-report characters of the text, then a line end; otherwise, also
  when the length equals the bound, the notice \<open>complete contents\<close>, then the whole text.
  In both cases the number of header characters printed, the length of the chunk after
  the notice, is the minimum of the length of the text and raw-to-report. The rest of
  the report follows unless the quiet flag is set.
\<close>

theorem run_prints_raw_header:
  assumes "configure x argc args = Inr cfg"
    and "fs (input_file cfg) = Some rd"
    and "opt_raw cfg"
    and "0 \<le> sint (opt_raw_to_report cfg)"
  shows
    "let header = GetHeader rd;
         printable = ToString header;
         bound = sint (opt_raw_to_report cfg);
         refs = (if HasSequences header then GetReferenceData rd else []);
         loop = read_loop x cfg refs 0 (Alignments rd);
         after = (if opt_quiet cfg then []
                  else headerline_section x header @ ref_section x cfg rd
                    @ readgroup_section x header @ program_section x header
                    @ comment_section x header @ announce_section x cfg
                    @ detail loop @ [tally_line x (n_reads loop)])
     in cout (main_inu x argc args fs) =
          validity_section x header
          @ (if int (length printable) > bound
             then [NAME x @ '' header string, first '' @ string_of_int bound
                     @ '' characters:'' @ nl,
                   take (nat bound) printable,
                   nl]
             else [NAME x @ '' header string, complete contents:'' @ nl, printable])
          @ after
        \<and> int (length (cout (main_inu x argc args fs) ! (length (validity_section x header) + 1)))
            = min (int (length printable)) bound"
proof -
  define before where "before = validity_section x (GetHeader rd)"
  define rest where "rest =
     (if opt_quiet cfg then []
      else headerline_section x (GetHeader rd) @ ref_section x cfg rd
        @ readgroup_section x (GetHeader rd) @ program_section x (GetHeader rd)
        @ comment_section x (GetHeader rd) @ announce_section x cfg
        @ detail (read_loop x cfg
             (if HasSequences (GetHeader rd) then GetReferenceData rd else [])
             0 (Alignments rd))
        @ [tally_line x
             (n_reads (read_loop x cfg
                (if HasSequences (GetHeader rd) then GetReferenceData rd else [])
                0 (Alignments rd)))])"
  define raw where "raw =
     (if int (length (ToString (GetHeader rd))) > sint (opt_raw_to_report cfg)
      then [NAME x @ '' header string, first ''
              @ string_of_int (sint (opt_raw_to_report cfg)) @ '' characters:'' @ nl,
            take (nat (sint (opt_raw_to_report cfg))) (ToString (GetHeader rd)),
            nl]
      else [NAME x @ '' header string, complete contents:'' @ nl, ToString (GetHeader rd)])"
  have out: "cout (main_inu x argc args fs) = before @ raw @ rest"
    using main_inu_cout [where fs = fs and rd = rd, OF assms(1) assms(2)]
    by (simp add: raw_section_nonneg [OF assms(3) assms(4)] before_def rest_def raw_def)
  have "(before @ raw @ rest) ! (length before + 1) = (raw @ rest) ! 1"
    by (simp only: nth_append_length_plus)
  moreover have "int (length ((raw @ rest) ! 1))
      = min (int (length (ToString (GetHeader rd)))) (sint (opt_raw_to_report cfg))"
    using assms(4) by (simp add: raw_def)
  ultimately have count: "int (length (cout (main_inu x argc args fs) ! (length before + 1)))
      = min (int (length (ToString (GetHeader rd)))) (sint (opt_raw_to_report cfg))"
    using out by simp
  show ?thesis
    unfolding Let_def using out count by (simp only: before_def rest_def raw_def)
qed

theorem run_prints_raw_header_witness:
  "configure sample_externals 5 short_raw_args
     = Inr (initial_options \<lparr> opt_raw := True, opt_raw_to_report := 4, input_file := ''in.bam'' \<rparr>)
   \<and> sample_fs ''in.bam'' = Some sample_reader
   \<and> opt_raw (initial_options \<lparr> opt_raw := True, opt_raw_to_report := 4, input_file := ''in.bam'' \<rparr>)
   \<and> 0 \<le> sint (opt_raw_to_report
         (initial_options \<lparr> opt_raw := True, opt_raw_to_report := 4, input_file := ''in.bam'' \<rparr>))
   \<and> take 4 (cout (main_inu sample_externals 5 short_raw_args sample_fs)) =
       [''inu header string, first 4 characters:'' @ nl, ''@HD '', nl,
        ''inu[headerline] VN:'' @ apos @ ''1.0'' @ apos @ nl]
   \<and> configure sample_externals 3 raw_args
     = Inr (initial_options \<lparr> opt_raw := True, input_file := ''in.bam'' \<rparr>)
   \<and> opt_raw (initial_options \<lparr> opt_raw := True, input_file := ''in.bam'' \<rparr>)
   \<and> 0 \<le> sint (opt_raw_to_report (initial_options \<lparr> opt_raw := True, input_file := ''in.bam'' \<rparr>))
   \<and> take 3 (cout (main_inu sample_externals 3 raw_args sample_fs)) =
       [''inu header string, complete contents:'' @ nl, ''@HD VN:1.0'',
        ''inu[headerline] VN:'' @ apos @ ''1.0'' @ apos @ nl]"
proof -
  define short where
    "short = initial_options \<lparr> opt_raw := True, opt_raw_to_report := 4, input_file := ''in.bam'' \<rparr>"
  define whole where
    "whole = initial_options \<lparr> opt_raw := True, input_file := ''in.bam'' \<rparr>"
  have c1: "configure sample_externals 5 short_raw_args = Inr short"
    by (simp add: short_def configure_def short_raw_args_def initial_options_def strtol_defs)
  have c2: "configure sample_externals 3 raw_args = Inr whole"
    by (simp add: whole_def configure_def raw_args_def initial_options_def)
  have f1: "sample_fs (input_file short) = Some sample_reader"
    by (simp add: short_def sample_fs_def)
  have f2: "sample_fs (input_file whole) = Some sample_reader"
    by (simp add: whole_def sample_fs_def)
  have r1: "opt_raw short" by (simp add: short_def)
  have r2: "opt_raw whole" by (simp add: whole_def)
  have b1: "0 \<le> sint (opt_raw_to_report short)" by (simp add: short_def)
  have b2: "0 \<le> sint (opt_raw_to_report whole)" by (simp add: whole_def initial_options_def)
  note truncated =
    run_prints_raw_header
      [where x = sample_externals and argc = 5 and args = short_raw_args and fs = sample_fs
         and rd = sample_reader, OF c1 f1 r1 b1, unfolded Let_def, THEN conjunct1]
  note complete =
    run_prints_raw_header
      [where x = sample_externals and argc = 3 and args = raw_args and fs = sample_fs
         and rd = sample_reader, OF c2 f2 r2 b2, unfolded Let_def, THEN conjunct1]
  have a: "take 4 (cout (main_inu sample_externals 5 short_raw_args sample_fs)) =
       [''inu header string, first 4 characters:'' @ nl, ''@HD '', nl,
        ''inu[headerline] VN:'' @ apos @ ''1.0'' @ apos @ nl]"
    by (subst truncated)
       (simp add: short_def initial_options_def sample_defs section_defs text_defs)
  have b: "take 3 (cout (main_inu sample_externals 3 raw_args sample_fs)) =
       [''inu header string, complete contents:'' @ nl, ''@HD VN:1.0'',
        ''inu[headerline] VN:'' @ apos @ ''1.0'' @ apos @ nl]"
    by (subst complete)
       (simp add: whole_def initial_options_def sample_defs section_defs text_defs)
  have o: "sample_fs ''in.bam'' = Some sample_reader" by (simp add: sample_fs_def)
  show ?thesis using c1 c2 o r1 r2 b1 b2 a b unfolding short_def whole_def by blast
qed

section \<open>The reference sequences\<close>

lemma ref_loop_map:
  "ref_loop x cfg i rs =
     map (\<lambda>k. ref_line x (i + int k) (rs ! k))
       [0 ..< min (length rs) (nat (sint (opt_refs_to_report cfg) - i))]"
proof (induction rs arbitrary: i)
  case Nil
  then show ?case by simp
next
  case (Cons r rs)
  show ?case
  proof (cases "i < sint (opt_refs_to_report cfg)")
    case False
    then show ?thesis by simp
  next
    case True
    then obtain m where m: "nat (sint (opt_refs_to_report cfg) - i) = Suc m"
      by (metis Suc_pred' zero_less_nat_eq diff_gt_0_iff_gt)
    then have m': "nat (sint (opt_refs_to_report cfg) - (i + 1)) = m" by linarith
    have "[0 ..< min (length (r # rs)) (Suc m)] = 0 # map Suc [0 ..< min (length rs) m]"
      by (simp add: upt_conv_Cons map_Suc_upt del: upt_Suc)
    then show ?thesis using True m m' Cons.IH [of "i + 1"]
      by (simp add: o_def add.assoc del: upt_Suc)
  qed
qed

lemma ref_loop_entries:
  "ref_loop x cfg 0 (GetReferenceData rd) =
     map (\<lambda>i. ref_line x (int i) (GetReferenceData rd ! i))
       [0 ..< nat (min (GetReferenceCount rd) (sint (opt_refs_to_report cfg)))]"
proof -
  have n: "min (length (GetReferenceData rd)) (nat (sint (opt_refs_to_report cfg) - 0))
      = nat (min (GetReferenceCount rd) (sint (opt_refs_to_report cfg)))"
    by (simp add: GetReferenceCount_def)
  show ?thesis
    using ref_loop_map [of x cfg 0 "GetReferenceData rd"] by (simp only: n) simp
qed

text \<open>
  C2, as the claim states it, fails for a negative bound. The run
  \<open>inu --refs-to-report -1 in.bam\<close> opens a file whose header has three reference
  sequences; \<open>cout\<close> holds the notice and not one \<open>@SQ\<close> entry, and the minimum of 3 and
  -1 is not 0.
\<close>

theorem negative_refs_to_report_counterexample:
  "configure sample_externals 4 negative_refs_args
     = Inr (initial_options \<lparr> opt_refs_to_report := - 1, input_file := ''in.bam'' \<rparr>)
   \<and> sample_fs ''in.bam'' = Some sample_reader
   \<and> HasSequences (GetHeader sample_reader)
   \<and> GetReferenceCount sample_reader = 3
   \<and> sint (- 1 :: 32 word) = - 1
   \<and> cout (main_inu sample_externals 4 negative_refs_args sample_fs) =
       [''inu[headerline] VN:'' @ apos @ ''1.0'' @ apos @ nl,
        ''inu[ref] displaying the first -1 reference sequences'' @ nl,
        ''inu[readgroup] no read group dictionary found'' @ nl,
        ''inu[program] no program information found'' @ nl,
        ''inu[program] @CO '' @ apos @ ''by hand'' @ apos @ nl,
        ''inu[read] printing the first 10 reads'' @ nl,
        ''inu[read] r1'' @ nl, ''inu[read] r2'' @ nl, ''inu[read] r3'' @ nl,
        ''inu[read] 3 reads examined from the BAM file'' @ nl]
   \<and> filter (\<lambda>line. take 12 line = ''inu[ref] @SQ'')
        (cout (main_inu sample_externals 4 negative_refs_args sample_fs)) = []
   \<and> int (length ([] :: string list))
       \<noteq> min (GetReferenceCount sample_reader) (sint (- 1 :: 32 word))"
  by (simp add: run_defs)

text \<open>
  C2, amended. In a run that opens its input and is not quiet, for a header that has
  reference sequences \<open>cout\<close> holds, between the header line and the read group
  section: the truncation notice, if and only if the reference count exceeds
  refs-to-report, followed by one entry for each index below the minimum of the
  reference count and refs-to-report, in order, each with its index, name and length.
  The number of entries is that minimum when refs-to-report is not negative, and 0
  when it is negative. For a header without sequences the notice
  \<open>no reference sequences found\<close> stands there instead.
\<close>

theorem run_prints_reference_listing:
  assumes "configure x argc args = Inr cfg"
    and "fs (input_file cfg) = Some rd"
    and "\<not> opt_quiet cfg"
  shows
    "let header = GetHeader rd;
         ref_count = GetReferenceCount rd;
         wanted = sint (opt_refs_to_report cfg);
         refs = (if HasSequences header then GetReferenceData rd else []);
         loop = read_loop x cfg refs 0 (Alignments rd);
         before = validity_section x header @ raw_section x cfg header
                    @ headerline_section x header;
         after = readgroup_section x header @ program_section x header
                   @ comment_section x header @ announce_section x cfg
                   @ detail loop @ [tally_line x (n_reads loop)];
         entries = map (\<lambda>i. ref_line x (int i) (GetReferenceData rd ! i))
                     [0 ..< nat (min ref_count wanted)]
     in (HasSequences header \<longrightarrow>
           cout (main_inu x argc args fs) =
             before
             @ (if ref_count > wanted
                then [NAME x @ ''[ref] displaying the first '' @ string_of_int wanted
                        @ '' reference sequences'' @ nl]
                else [])
             @ entries
             @ after)
        \<and> (0 \<le> wanted \<longrightarrow> int (length entries) = min ref_count wanted)
        \<and> (wanted < 0 \<longrightarrow> entries = [])
        \<and> (\<not> HasSequences header \<longrightarrow>
             cout (main_inu x argc args fs) =
               before @ [NAME x @ ''[ref] no reference sequences found'' @ nl] @ after)"
proof -
  have full: "HasSequences (GetHeader rd) \<longrightarrow>
      ref_section x cfg rd =
        (if GetReferenceCount rd > sint (opt_refs_to_report cfg)
         then [NAME x @ ''[ref] displaying the first ''
                 @ string_of_int (sint (opt_refs_to_report cfg))
                 @ '' reference sequences'' @ nl]
         else [])
        @ map (\<lambda>i. ref_line x (int i) (GetReferenceData rd ! i))
            [0 ..< nat (min (GetReferenceCount rd) (sint (opt_refs_to_report cfg)))]"
    by (simp add: ref_section_def Let_def ref_loop_entries)
  have none: "\<not> HasSequences (GetHeader rd) \<longrightarrow>
      ref_section x cfg rd = [NAME x @ ''[ref] no reference sequences found'' @ nl]"
    by (simp add: ref_section_def)
  have count: "0 \<le> sint (opt_refs_to_report cfg) \<longrightarrow>
      int (length (map (\<lambda>i. ref_line x (int i) (GetReferenceData rd ! i))
            [0 ..< nat (min (GetReferenceCount rd) (sint (opt_refs_to_report cfg)))]))
        = min (GetReferenceCount rd) (sint (opt_refs_to_report cfg))"
    by (simp add: GetReferenceCount_def)
  have empty: "sint (opt_refs_to_report cfg) < 0 \<longrightarrow>
      map (\<lambda>i. ref_line x (int i) (GetReferenceData rd ! i))
        [0 ..< nat (min (GetReferenceCount rd) (sint (opt_refs_to_report cfg)))] = []"
    by simp
  have out: "cout (main_inu x argc args fs) =
      (validity_section x (GetHeader rd) @ raw_section x cfg (GetHeader rd)
         @ headerline_section x (GetHeader rd))
      @ ref_section x cfg rd
      @ (readgroup_section x (GetHeader rd) @ program_section x (GetHeader rd)
           @ comment_section x (GetHeader rd) @ announce_section x cfg
           @ detail (read_loop x cfg
                (if HasSequences (GetHeader rd) then GetReferenceData rd else [])
                0 (Alignments rd))
           @ [tally_line x
                (n_reads (read_loop x cfg
                   (if HasSequences (GetHeader rd) then GetReferenceData rd else [])
                   0 (Alignments rd)))])"
    using main_inu_cout [where fs = fs and rd = rd, OF assms(1) assms(2)] assms(3) by simp
  have listed: "HasSequences (GetHeader rd) \<longrightarrow>
      cout (main_inu x argc args fs) =
      (validity_section x (GetHeader rd) @ raw_section x cfg (GetHeader rd)
         @ headerline_section x (GetHeader rd))
      @ (if GetReferenceCount rd > sint (opt_refs_to_report cfg)
         then [NAME x @ ''[ref] displaying the first ''
                 @ string_of_int (sint (opt_refs_to_report cfg))
                 @ '' reference sequences'' @ nl]
         else [])
      @ map (\<lambda>i. ref_line x (int i) (GetReferenceData rd ! i))
            [0 ..< nat (min (GetReferenceCount rd) (sint (opt_refs_to_report cfg)))]
      @ (readgroup_section x (GetHeader rd) @ program_section x (GetHeader rd)
           @ comment_section x (GetHeader rd) @ announce_section x cfg
           @ detail (read_loop x cfg
                (if HasSequences (GetHeader rd) then GetReferenceData rd else [])
                0 (Alignments rd))
           @ [tally_line x
                (n_reads (read_loop x cfg
                   (if HasSequences (GetHeader rd) then GetReferenceData rd else [])
                   0 (Alignments rd)))])"
    using out full by simp
  have unlisted: "\<not> HasSequences (GetHeader rd) \<longrightarrow>
      cout (main_inu x argc args fs) =
      (validity_section x (GetHeader rd) @ raw_section x cfg (GetHeader rd)
         @ headerline_section x (GetHeader rd))
      @ [NAME x @ ''[ref] no reference sequences found'' @ nl]
      @ (readgroup_section x (GetHeader rd) @ program_section x (GetHeader rd)
           @ comment_section x (GetHeader rd) @ announce_section x cfg
           @ detail (read_loop x cfg
                (if HasSequences (GetHeader rd) then GetReferenceData rd else [])
                0 (Alignments rd))
           @ [tally_line x
                (n_reads (read_loop x cfg
                   (if HasSequences (GetHeader rd) then GetReferenceData rd else [])
                   0 (Alignments rd)))])"
    using out none by simp
  show ?thesis
    unfolding Let_def using listed count empty unlisted by blast
qed

theorem run_prints_reference_listing_witness:
  "configure sample_externals 4 two_refs_args
     = Inr (initial_options \<lparr> opt_refs_to_report := 2, input_file := ''in.bam'' \<rparr>)
   \<and> \<not> opt_quiet (initial_options \<lparr> opt_refs_to_report := 2, input_file := ''in.bam'' \<rparr>)
   \<and> 0 \<le> sint (opt_refs_to_report
         (initial_options \<lparr> opt_refs_to_report := 2, input_file := ''in.bam'' \<rparr>))
   \<and> sample_fs ''in.bam'' = Some sample_reader
   \<and> HasSequences (GetHeader sample_reader)
   \<and> cout (main_inu sample_externals 4 two_refs_args sample_fs) =
       [''inu[headerline] VN:'' @ apos @ ''1.0'' @ apos @ nl,
        ''inu[ref] displaying the first 2 reference sequences'' @ nl,
        ''inu[ref] @SQ ID:0'' @ tab @ ''NM:chr1'' @ tab @ ''LN:1000'' @ nl,
        ''inu[ref] @SQ ID:1'' @ tab @ ''NM:chr2'' @ tab @ ''LN:500'' @ nl,
        ''inu[readgroup] no read group dictionary found'' @ nl,
        ''inu[program] no program information found'' @ nl,
        ''inu[program] @CO '' @ apos @ ''by hand'' @ apos @ nl,
        ''inu[read] printing the first 10 reads'' @ nl,
        ''inu[read] r1'' @ nl, ''inu[read] r2'' @ nl, ''inu[read] r3'' @ nl,
        ''inu[read] 3 reads examined from the BAM file'' @ nl]
   \<and> configure sample_externals 2 plain_args = Inr (initial_options \<lparr> input_file := ''in.bam'' \<rparr>)
   \<and> \<not> opt_quiet (initial_options \<lparr> input_file := ''in.bam'' \<rparr>)
   \<and> bare_fs ''in.bam'' = Some bare_reader
   \<and> \<not> HasSequences (GetHeader bare_reader)
   \<and> take 3 (cout (main_inu sample_externals 2 plain_args bare_fs)) =
       [''inu[headerline] no header line found'' @ nl,
        ''inu[ref] no reference sequences found'' @ nl,
        ''inu[readgroup] no read group dictionary found'' @ nl]"
proof -
  define two where
    "two = initial_options \<lparr> opt_refs_to_report := 2, input_file := ''in.bam'' \<rparr>"
  define plain where "plain = initial_options \<lparr> input_file := ''in.bam'' \<rparr>"
  have c1: "configure sample_externals 4 two_refs_args = Inr two"
    by (simp add: two_def configure_def two_refs_args_def initial_options_def strtol_defs)
  have c2: "configure sample_externals 2 plain_args = Inr plain"
    by (simp add: plain_def configure_def plain_args_def initial_options_def)
  have q1: "\<not> opt_quiet two" by (simp add: two_def initial_options_def)
  have q2: "\<not> opt_quiet plain" by (simp add: plain_def initial_options_def)
  have w: "0 \<le> sint (opt_refs_to_report two)" by (simp add: two_def)
  have f1: "sample_fs (input_file two) = Some sample_reader"
    by (simp add: two_def sample_fs_def)
  have f2: "bare_fs (input_file plain) = Some bare_reader"
    by (simp add: plain_def bare_fs_def)
  have h1: "HasSequences (GetHeader sample_reader)"
    by (simp add: sample_reader_def sample_header_def)
  have h2: "\<not> HasSequences (GetHeader bare_reader)"
    by (simp add: bare_reader_def)
  note listed =
    run_prints_reference_listing
      [where x = sample_externals and argc = 4 and args = two_refs_args and fs = sample_fs
         and rd = sample_reader, OF c1 f1 q1, unfolded Let_def, THEN conjunct1, rule_format,
       OF h1]
  note unlisted =
    run_prints_reference_listing
      [where x = sample_externals and argc = 2 and args = plain_args and fs = bare_fs
         and rd = bare_reader, OF c2 f2 q2, unfolded Let_def, THEN conjunct2, THEN conjunct2,
       THEN conjunct2, rule_format, OF h2]
  have a: "cout (main_inu sample_externals 4 two_refs_args sample_fs) =
       [''inu[headerline] VN:'' @ apos @ ''1.0'' @ apos @ nl,
        ''inu[ref] displaying the first 2 reference sequences'' @ nl,
        ''inu[ref] @SQ ID:0'' @ tab @ ''NM:chr1'' @ tab @ ''LN:1000'' @ nl,
        ''inu[ref] @SQ ID:1'' @ tab @ ''NM:chr2'' @ tab @ ''LN:500'' @ nl,
        ''inu[readgroup] no read group dictionary found'' @ nl,
        ''inu[program] no program information found'' @ nl,
        ''inu[program] @CO '' @ apos @ ''by hand'' @ apos @ nl,
        ''inu[read] printing the first 10 reads'' @ nl,
        ''inu[read] r1'' @ nl, ''inu[read] r2'' @ nl, ''inu[read] r3'' @ nl,
        ''inu[read] 3 reads examined from the BAM file'' @ nl]"
    by (rule trans [OF listed])
       (simp add: two_def initial_options_def sample_defs section_defs text_defs
          upt_conv_Cons)
  have b: "take 3 (cout (main_inu sample_externals 2 plain_args bare_fs)) =
       [''inu[headerline] no header line found'' @ nl,
        ''inu[ref] no reference sequences found'' @ nl,
        ''inu[readgroup] no read group dictionary found'' @ nl]"
    by (subst unlisted)
       (simp add: plain_def initial_options_def bare_reader_def sample_defs section_defs
          text_defs)
  have o: "sample_fs ''in.bam'' = Some sample_reader" by (simp add: sample_fs_def)
  have p: "bare_fs ''in.bam'' = Some bare_reader" by (simp add: bare_fs_def)
  show ?thesis using c1 c2 q1 q2 w o p h1 h2 a b unfolding two_def plain_def by blast
qed

section \<open>The reads\<close>

lemma read_loop_detail:
  "sint (opt_reads cfg) < 0 \<Longrightarrow>
   detail (read_loop x cfg refs n als) =
     map (read_line x refs) (take (nat (sint (opt_reads_to_report cfg) - n)) als)"
proof (induction als arbitrary: n)
  case Nil
  then show ?case by simp
next
  case (Cons al rest)
  show ?case
  proof (cases "n + 1 \<le> sint (opt_reads_to_report cfg)")
    case True
    then obtain m where m: "nat (sint (opt_reads_to_report cfg) - n) = Suc m"
      by (metis Suc_pred' zero_less_nat_eq diff_gt_0_iff_gt zless_add1_eq linorder_not_less
            order_le_less)
    then have m': "nat (sint (opt_reads_to_report cfg) - (n + 1)) = m" by linarith
    show ?thesis using True m m' Cons.IH [of "n + 1"] Cons.prems
      by (auto simp: Let_def)
  next
    case False
    then have z: "nat (sint (opt_reads_to_report cfg) - n) = 0"
      and z': "nat (sint (opt_reads_to_report cfg) - (n + 1)) = 0" by linarith+
    show ?thesis using False z z' Cons.IH [of "n + 1"] Cons.prems
      by (auto simp: Let_def)
  qed
qed

lemma read_loop_fetched:
  "sint (opt_reads cfg) < 0 \<Longrightarrow>
   n_reads (read_loop x cfg refs n als)
     = n + int (length als) - int (length (unread (read_loop x cfg refs n als)))"
  by (induction als arbitrary: n) (auto simp: Let_def)

lemma read_loop_all:
  "sint (opt_reads cfg) < 0 \<Longrightarrow> \<not> opt_quit cfg \<Longrightarrow>
   n_reads (read_loop x cfg refs n als) = n + int (length als)
   \<and> unread (read_loop x cfg refs n als) = []"
  by (induction als arbitrary: n) (auto simp: Let_def)

lemma read_loop_quit:
  "sint (opt_reads cfg) < 0 \<Longrightarrow> opt_quit cfg \<Longrightarrow> n < sint (opt_reads_to_report cfg) \<Longrightarrow>
   n_reads (read_loop x cfg refs n als)
     = min (n + int (length als)) (sint (opt_reads_to_report cfg))"
  by (induction als arbitrary: n) (auto simp: Let_def)

text \<open>
  C1, as the claim states it, fails on the file of three records, in three ways. The
  lines of the reads section are those after the seven lines of the header sections.
  With \<open>--reads 1\<close> one detailed line is printed, not min(3, 10) = 3. With
  \<open>--reads-to-report -1\<close> no detailed line is printed, and min(3, -1) is not 0. With
  \<open>--quit --reads-to-report 0\<close> the file holds at least 0 records, and the tally is 3,
  not 0.
\<close>

theorem reads_report_counterexample:
  "length (Alignments sample_reader) = 3
   \<and> drop 7 (cout (main_inu sample_externals 4 capped_args sample_fs))
       = [''inu[read] printing the first 10 reads'' @ nl,
          ''inu[read] r1'' @ nl,
          ''inu[read] 1 reads examined from the BAM file'' @ nl]
   \<and> drop 7 (cout (main_inu sample_externals 4 negative_reads_args sample_fs))
       = [''inu[read] printing the first -1 reads'' @ nl,
          ''inu[read] 3 reads examined from the BAM file'' @ nl]
   \<and> drop 7 (cout (main_inu sample_externals 5 quit_zero_args sample_fs))
       = [''inu[read] 3 reads examined from the BAM file'' @ nl]"
  by (simp add: run_defs)

text \<open>
  C1, amended. In a run that reaches the reads, with no cap on the records (\<open>--reads\<close>
  negative, as by default) and reads-to-report not negative: the reads section is the
  announcement, the detailed lines and the tally; the detailed lines are those of the
  first min(total records, reads-to-report) records, so there are exactly that many;
  the tally is the number of records the reader delivered; without the quit-early flag
  that is the total number of records; with the quit-early flag and reads-to-report at
  least 1, iteration stops once reads-to-report records have been read, so the tally is
  min(total records, reads-to-report).
\<close>

theorem reads_report:
  assumes "configure x argc args = Inr cfg"
    and "fs (input_file cfg) = Some rd"
    and "\<not> opt_quiet cfg"
    and "sint (opt_reads cfg) < 0"
    and "0 \<le> sint (opt_reads_to_report cfg)"
  shows
    "let als = Alignments rd;
         total = int (length als);
         wanted = sint (opt_reads_to_report cfg);
         refs = (if HasSequences (GetHeader rd) then GetReferenceData rd else []);
         loop = read_loop x cfg refs 0 als
     in cout (main_inu x argc args fs) =
          (validity_section x (GetHeader rd) @ raw_section x cfg (GetHeader rd)
             @ headerline_section x (GetHeader rd) @ ref_section x cfg rd
             @ readgroup_section x (GetHeader rd) @ program_section x (GetHeader rd)
             @ comment_section x (GetHeader rd))
          @ announce_section x cfg @ detail loop @ [tally_line x (n_reads loop)]
        \<and> detail loop = map (read_line x refs) (take (nat (min total wanted)) als)
        \<and> int (length (detail loop)) = min total wanted
        \<and> n_reads loop = total - int (length (unread loop))
        \<and> (\<not> opt_quit cfg \<longrightarrow> n_reads loop = total \<and> unread loop = [])
        \<and> (opt_quit cfg \<and> 1 \<le> wanted \<longrightarrow> n_reads loop = min total wanted)"
proof -
  define als where "als = Alignments rd"
  define refs where "refs = (if HasSequences (GetHeader rd) then GetReferenceData rd else [])"
  define loop where "loop = read_loop x cfg refs 0 als"
  define total where "total = int (length als)"
  define wanted where "wanted = sint (opt_reads_to_report cfg)"
  have out: "cout (main_inu x argc args fs) =
          (validity_section x (GetHeader rd) @ raw_section x cfg (GetHeader rd)
             @ headerline_section x (GetHeader rd) @ ref_section x cfg rd
             @ readgroup_section x (GetHeader rd) @ program_section x (GetHeader rd)
             @ comment_section x (GetHeader rd))
          @ announce_section x cfg @ detail loop @ [tally_line x (n_reads loop)]"
    using assms(1-3) by (simp add: main_inu_def report_def Let_def loop_def refs_def als_def)
  have "detail loop = map (read_line x refs) (take (nat (wanted - 0)) als)"
    unfolding loop_def wanted_def by (rule read_loop_detail [OF assms(4)])
  moreover have "take (nat (wanted - 0)) als = take (nat (min total wanted)) als"
    by (simp add: total_def min_def)
  ultimately have lines: "detail loop = map (read_line x refs) (take (nat (min total wanted)) als)"
    by simp
  have count: "int (length (detail loop)) = min total wanted"
    using assms(5) by (simp add: lines total_def wanted_def)
  have fetched: "n_reads loop = total - int (length (unread loop))"
    using read_loop_fetched [OF assms(4), of x refs 0 als] by (simp add: loop_def total_def)
  have all: "\<not> opt_quit cfg \<longrightarrow> n_reads loop = total \<and> unread loop = []"
    using read_loop_all [OF assms(4), of x refs 0 als] by (simp add: loop_def total_def)
  have quit: "opt_quit cfg \<and> 1 \<le> wanted \<longrightarrow> n_reads loop = min total wanted"
    using read_loop_quit [OF assms(4), of 0 x refs als]
    by (simp add: loop_def total_def wanted_def)
  show ?thesis
    using out lines count fetched all quit
    unfolding Let_def als_def [symmetric] refs_def [symmetric] total_def [symmetric]
      wanted_def [symmetric] loop_def [symmetric]
    by blast
qed

theorem reads_report_witness:
  "configure sample_externals 5 quit_two_args
     = Inr (initial_options \<lparr> opt_quit := True, opt_reads_to_report := 2, input_file := ''in.bam'' \<rparr>)
   \<and> sample_fs ''in.bam'' = Some sample_reader
   \<and> \<not> opt_quiet (initial_options \<lparr> opt_quit := True, opt_reads_to_report := 2, input_file := ''in.bam'' \<rparr>)
   \<and> sint (opt_reads (initial_options \<lparr> opt_quit := True, opt_reads_to_report := 2, input_file := ''in.bam'' \<rparr>)) < 0
   \<and> 0 \<le> sint (opt_reads_to_report (initial_options \<lparr> opt_quit := True, opt_reads_to_report := 2, input_file := ''in.bam'' \<rparr>))
   \<and> detail (read_loop sample_externals
        (initial_options \<lparr> opt_quit := True, opt_reads_to_report := 2, input_file := ''in.bam'' \<rparr>)
        (GetReferenceData sample_reader) 0 (Alignments sample_reader))
       = [''inu[read] r1'' @ nl, ''inu[read] r2'' @ nl]
   \<and> n_reads (read_loop sample_externals
        (initial_options \<lparr> opt_quit := True, opt_reads_to_report := 2, input_file := ''in.bam'' \<rparr>)
        (GetReferenceData sample_reader) 0 (Alignments sample_reader)) = 2
   \<and> drop 7 (cout (main_inu sample_externals 5 quit_two_args sample_fs))
       = [''inu[read] printing the first 2 reads'' @ nl,
          ''inu[read] r1'' @ nl, ''inu[read] r2'' @ nl,
          ''inu[read] 2 reads examined from the BAM file'' @ nl]"
proof -
  define cfg where
    "cfg = initial_options \<lparr> opt_quit := True, opt_reads_to_report := 2, input_file := ''in.bam'' \<rparr>"
  have c: "configure sample_externals 5 quit_two_args = Inr cfg"
    by (simp add: cfg_def configure_def quit_two_args_def initial_options_def strtol_defs)
  have f: "sample_fs (input_file cfg) = Some sample_reader"
    by (simp add: cfg_def sample_fs_def)
  have q: "\<not> opt_quiet cfg"
    by (simp add: cfg_def initial_options_def)
  have r: "sint (opt_reads cfg) < 0"
    by (simp add: cfg_def initial_options_def)
  have w: "0 \<le> sint (opt_reads_to_report cfg)"
    by (simp add: cfg_def)
  have h: "HasSequences (GetHeader sample_reader)"
    by (simp add: sample_reader_def sample_header_def)
  have t: "length (Alignments sample_reader) = 3"
    by (simp add: sample_reader_def)
  have g: "opt_quit cfg \<and> sint (opt_reads_to_report cfg) = 2"
    by (simp add: cfg_def)
  note run =
    reads_report
      [where x = sample_externals and argc = 5 and args = quit_two_args and fs = sample_fs
         and rd = sample_reader, OF c f q r w, unfolded Let_def]
  have refs: "(if HasSequences (GetHeader sample_reader) then GetReferenceData sample_reader
        else []) = GetReferenceData sample_reader"
    using h by simp
  have first_two: "map (read_line sample_externals (GetReferenceData sample_reader))
        (take (nat (min (int (length (Alignments sample_reader))) (sint (opt_reads_to_report cfg))))
           (Alignments sample_reader))
       = [''inu[read] r1'' @ nl, ''inu[read] r2'' @ nl]"
    by (simp add: g sample_reader_def sample_externals_def read_line_def)
  have lines: "detail (read_loop sample_externals cfg (GetReferenceData sample_reader) 0
        (Alignments sample_reader))
       = [''inu[read] r1'' @ nl, ''inu[read] r2'' @ nl]"
    by (rule trans [OF run [unfolded refs, THEN conjunct2, THEN conjunct1] first_two])
  have tally: "n_reads (read_loop sample_externals cfg (GetReferenceData sample_reader) 0
        (Alignments sample_reader)) = 2"
    using run g h t by simp
  have out: "drop 7 (cout (main_inu sample_externals 5 quit_two_args sample_fs))
       = [''inu[read] printing the first 2 reads'' @ nl,
          ''inu[read] r1'' @ nl, ''inu[read] r2'' @ nl,
          ''inu[read] 2 reads examined from the BAM file'' @ nl]"
    using run [THEN conjunct1] h lines tally
    by (simp add: cfg_def initial_options_def sample_defs section_defs text_defs Let_def)
  have o: "sample_fs ''in.bam'' = Some sample_reader"
    by (simp add: sample_fs_def)
  show ?thesis
    using c o q r w lines tally out unfolding cfg_def by blast
qed


end
